theory Spec2Isabelle
  imports Complex_Main "HOL-Library.Multiset" "HOL-Library.List_Lexorder"
begin

section \<open>JavaScript values used by the tracker\<close>

text \<open>
  A JavaScript number is an IEEE double. The functions below only compare a number with
  zero and apply \<open>Math.floor\<close>, both exact on doubles, so a finite double is modelled by
  the real it denotes; the two infinities and NaN are kept as values of their own.
\<close>

datatype jsnum = Fin real | PosInf | NegInf | NaN

fun isNaN :: "jsnum \<Rightarrow> bool" where
  "isNaN NaN = True"
| "isNaN _ = False"

text \<open>\<open>value < 0\<close> on a number.\<close>

fun lt_zero :: "jsnum \<Rightarrow> bool" where
  "lt_zero (Fin r) = (r < 0)"
| "lt_zero NegInf = True"
| "lt_zero PosInf = False"
| "lt_zero NaN = False"

text \<open>\<open>Math.floor\<close>: the infinities and NaN are returned as they are.\<close>

fun Math_floor :: "jsnum \<Rightarrow> jsnum" where
  "Math_floor (Fin r) = Fin (of_int \<lfloor>r\<rfloor>)"
| "Math_floor PosInf = PosInf"
| "Math_floor NegInf = NegInf"
| "Math_floor NaN = NaN"

text \<open>
  The values a field of a game object can hold. \<open>JObj\<close> stands for any non-primitive
  (a Date, the goal history, an array), named by a label.
\<close>

datatype jsval = JUndefined | JNull | JBool bool | JNum jsnum | JStr string | JObj string

text \<open>
  \<open>Number(v)\<close>. The conversion of a string (the numeric-literal grammar) and of an object
  (its \<open>valueOf\<close>) belongs to the language, not to this program: it is the parameter
  \<open>conv\<close>.
\<close>

fun Number_js :: "(jsval \<Rightarrow> jsnum) \<Rightarrow> jsval \<Rightarrow> jsnum" where
  "Number_js conv JUndefined = NaN"
| "Number_js conv JNull = Fin 0"
| "Number_js conv (JBool b) = Fin (if b then 1 else 0)"
| "Number_js conv (JNum n) = n"
| "Number_js conv (JStr s) = conv (JStr s)"
| "Number_js conv (JObj l) = conv (JObj l)"

text \<open>Truthiness, as tested by \<open>!v\<close> and \<open>v || d\<close>.\<close>

fun truthy :: "jsval \<Rightarrow> bool" where
  "truthy JUndefined = False"
| "truthy JNull = False"
| "truthy (JBool b) = b"
| "truthy (JNum (Fin r)) = (r \<noteq> 0)"
| "truthy (JNum NaN) = False"
| "truthy (JNum _) = True"
| "truthy (JStr s) = (s \<noteq> [])"
| "truthy (JObj l) = True"

text \<open>An object literal: a finite map from property names; a missing property reads \<open>undefined\<close>.\<close>

type_synonym jsobj = "string \<rightharpoonup> jsval"

definition getprop :: "jsobj \<Rightarrow> string \<Rightarrow> jsval" where
  "getprop obj field = (case obj field of None \<Rightarrow> JUndefined | Some v \<Rightarrow> v)"

text \<open>\<open>xs.join(sep)\<close> on strings.\<close>

fun join :: "'a list \<Rightarrow> 'a list list \<Rightarrow> 'a list" where
  "join sep [] = []"
| "join sep [x] = x"
| "join sep (x # y # ys) = x @ sep @ join sep (y # ys)"

text \<open>
  Text that the user types, and every string built from it, is a JavaScript string: a
  sequence of UTF-16 code units, each a number below 65536. \<open>lit\<close> gives the code units
  of a string written in ASCII. The default \<open>sort\<close> of an array of strings compares them
  code unit by code unit, which is the lexicographic order of these lists.
\<close>

type_synonym jsstring = "nat list"

definition lit :: "string \<Rightarrow> jsstring" where
  "lit s = map of_char s"

text \<open>
  Decimal digits of a non-negative integer, as \<open>toString\<close> prints them. \<open>digit_char\<close> is
  only applied to a number below 10.
\<close>

definition digit_char :: "nat \<Rightarrow> char" where
  "digit_char n = ''0123456789'' ! n"

fun string_of_nat :: "nat \<Rightarrow> string" where
  "string_of_nat n = (if n < 10 then [digit_char n] else string_of_nat (n div 10) @ [digit_char (n mod 10)])"

definition string_of_int :: "int \<Rightarrow> string" where
  "string_of_int i = (if i < 0 then CHR ''-'' # string_of_nat (nat (- i)) else string_of_nat (nat i))"

section \<open>firebase/database.js\<close>

text \<open>
  A thrown value: its class name, its message and its \<open>code\<close> property (absent on a plain
  \<open>Error\<close>).
\<close>

record js_error =
  err_name :: string
  err_message :: string
  err_code :: "string option"

text \<open>
  \<open>new DatabaseError(message, code = 'unknown', originalError = null)\<close>: the default applies
  when the code passed is \<open>undefined\<close>.
\<close>

definition DatabaseError :: "string \<Rightarrow> string option \<Rightarrow> js_error" where
  "DatabaseError msg code_arg =
     \<lparr>err_name = ''DatabaseError'', err_message = msg,
      err_code = Some (case code_arg of None \<Rightarrow> ''unknown'' | Some c \<Rightarrow> c)\<rparr>"

subsection \<open>withRetry\<close>

text \<open>
  What \<open>withRetry\<close> does, in order: a call of the operation (with the attempt number) or a
  \<open>setTimeout\<close> sleep (milliseconds).
\<close>

datatype retry_event = Attempt nat | Sleep nat

text \<open>
  The three ways the loop ends: the operation's value is returned, the error is rethrown,
  or the loop runs out without a call (only when \<open>maxRetries\<close> is below the first attempt)
  and the function returns \<open>undefined\<close>.
\<close>

datatype 'a retry_result = Returned 'a | Threw js_error | ReturnedUndefined

text \<open>
  The operation is a closure run anew at each attempt; \<open>operation k\<close> is the outcome of its
  \<open>k\<close>-th run. The loop carries the attempt number and the events so far.
\<close>

function withRetry_loop ::
  "(nat \<Rightarrow> js_error + 'a) \<Rightarrow> nat \<Rightarrow> nat \<Rightarrow> nat \<Rightarrow> 'a retry_result \<times> retry_event list"
where
  "withRetry_loop operation maxRetries delay attempt =
     (if attempt \<le> maxRetries then
        (case operation attempt of
           Inr v \<Rightarrow> (Returned v, [Attempt attempt])
         | Inl error \<Rightarrow>
             if attempt = maxRetries \<or> err_code error = Some ''permission-denied''
             then (Threw error, [Attempt attempt])
             else (let (r, evs) = withRetry_loop operation maxRetries delay (attempt + 1)
                   in (r, Attempt attempt # Sleep (delay * 2 ^ (attempt - 1)) # evs)))
      else (ReturnedUndefined, []))"
  by pat_completeness auto
termination
  by (relation "measure (\<lambda>(operation, maxRetries, delay, attempt). maxRetries + 1 - attempt)") auto

definition withRetry ::
  "(nat \<Rightarrow> js_error + 'a) \<Rightarrow> nat \<Rightarrow> nat \<Rightarrow> 'a retry_result \<times> retry_event list"
where
  "withRetry operation maxRetries delay = withRetry_loop operation maxRetries delay 1"

text \<open>The call sites pass the operation only: \<open>maxRetries = 3\<close>, \<open>delay = 1000\<close>.\<close>

definition withRetry_default :: "(nat \<Rightarrow> js_error + 'a) \<Rightarrow> 'a retry_result \<times> retry_event list" where
  "withRetry_default operation = withRetry operation 3 1000"

subsection \<open>validateGameData\<close>

definition required :: "string list" where
  "required = [''date'', ''playerName'']"

definition numericFields :: "string list" where
  "numericFields =
     [''goalsLeft'', ''goalsRight'', ''shotsLeft'', ''shotsRight'',
      ''assists'', ''passCompletions'', ''cornersTaken'', ''cornerConversions'',
      ''offensive1v1Attempts'', ''offensive1v1Won'', ''defensive1v1Attempts'', ''defensive1v1Won'',
      ''fouls'', ''cards'', ''gkShotsSaved'', ''gkGoalsAgainst'', ''ourGoals'', ''theirGoals'',
      ''freeKicksTaken'', ''freeKicksMade'', ''defensiveTackles'', ''defensiveFailures'',
      ''defensiveDisruption'', ''defensiveDistribution'']"

text \<open>The body of the \<open>forEach\<close> over the numeric fields.\<close>

definition sanitize_field :: "(jsval \<Rightarrow> jsnum) \<Rightarrow> jsobj \<Rightarrow> string \<Rightarrow> jsobj" where
  "sanitize_field conv sanitized field =
     (if getprop sanitized field \<noteq> JUndefined then
        (let v = Number_js conv (getprop sanitized field)
         in if isNaN v \<or> lt_zero v
            then sanitized(field \<mapsto> JNum (Fin 0))
            else sanitized(field \<mapsto> JNum (Math_floor v)))
      else sanitized)"

text \<open>\<open>now\<close> is the value of \<open>new Date()\<close>.\<close>

definition validateGameData :: "(jsval \<Rightarrow> jsnum) \<Rightarrow> jsval \<Rightarrow> jsobj \<Rightarrow> js_error + jsobj" where
  "validateGameData conv now gameData =
     (let missing = filter (\<lambda>field. \<not> truthy (getprop gameData field)) required
      in if length missing > 0
         then Inl (DatabaseError (''Missing required fields: '' @ join '', '' missing) None)
         else Inr ((foldl (sanitize_field conv) gameData numericFields)
                     (''lastModified'' \<mapsto> now, ''version'' \<mapsto> JStr ''1.0'')))"

subsection \<open>gameService\<close>

text \<open>
  \<open>getUserPin\<close>: \<open>localStorage.getItem(...) || null\<close>, so an empty stored string reads as
  no PIN.
\<close>

definition getUserPin :: "string option \<Rightarrow> string option" where
  "getUserPin stored = (case stored of None \<Rightarrow> None | Some p \<Rightarrow> if p = [] then None else Some p)"

text \<open>
  The remote collection is the list of documents written so far. An \<open>addDoc\<close> attempt
  either fails with an error or yields the new document's id; \<open>updateDoc\<close> and
  \<open>deleteDoc\<close> attempts either fail or succeed. These outcomes are parameters: the
  attempt number is mapped to what the remote store answered.
\<close>

record remote_store =
  docs :: "(string \<times> jsobj) list"

text \<open>
  What a service call leaves behind: its result, the store and the retry events. With three
  attempts allowed the loop always calls the operation, so the \<open>ReturnedUndefined\<close> case
  of the methods below (the method resolving to \<open>undefined\<close>) is never taken.
\<close>

record 'a service_outcome =
  result :: "js_error + 'a"
  store :: remote_store
  events :: "retry_event list"

text \<open>The \<open>catch\<close> of every service method: wrap the error, keeping its code.\<close>

definition wrap_error :: "string \<Rightarrow> js_error \<Rightarrow> js_error" where
  "wrap_error prefix error = DatabaseError (prefix @ err_message error) (err_code error)"

text \<open>
  \<open>{id: docRef.id, ...validated}\<close>: the spread comes second, so an \<open>id\<close> property of
  \<open>validated\<close> overrides the first one.
\<close>

definition with_id :: "string \<Rightarrow> jsobj \<Rightarrow> jsobj" where
  "with_id i validated = [''id'' \<mapsto> JStr i] ++ validated"

definition gameService_saveGame ::
  "(jsval \<Rightarrow> jsnum) \<Rightarrow> jsval \<Rightarrow> string option \<Rightarrow> (nat \<Rightarrow> js_error + string) \<Rightarrow>
   remote_store \<Rightarrow> jsobj \<Rightarrow> jsobj service_outcome"
where
  "gameService_saveGame conv now stored_pin addDoc st gameData =
     (case getUserPin stored_pin of
        None \<Rightarrow> \<lparr>result = Inl (DatabaseError ''No user PIN set'' None), store = st, events = []\<rparr>
      | Some userPin \<Rightarrow>
          (case validateGameData conv now gameData of
             Inl error \<Rightarrow>
               \<lparr>result = Inl (wrap_error ''Failed to save game: '' error), store = st, events = []\<rparr>
           | Inr v0 \<Rightarrow>
               (let validated = v0(''userPin'' \<mapsto> JStr userPin, ''createdAt'' \<mapsto> now)
                in case withRetry_default addDoc of
                     (Returned docId, evs) \<Rightarrow>
                       \<lparr>result = Inr (with_id docId validated),
                        store = st\<lparr>docs := docs st @ [(docId, validated)]\<rparr>, events = evs\<rparr>
                   | (Threw error, evs) \<Rightarrow>
                       \<lparr>result = Inl (wrap_error ''Failed to save game: '' error), store = st,
                        events = evs\<rparr>
                   | (ReturnedUndefined, evs) \<Rightarrow>
                       \<lparr>result = Inr Map.empty, store = st, events = evs\<rparr>)))"

text \<open>\<open>updateDoc(gameRef, validated)\<close> merges the fields into the stored document.\<close>

fun updateDoc :: "string \<Rightarrow> jsobj \<Rightarrow> (string \<times> jsobj) list \<Rightarrow> (string \<times> jsobj) list" where
  "updateDoc gameId validated [] = []"
| "updateDoc gameId validated ((i, d) # ds) =
     (if i = gameId then (i, d ++ validated) # updateDoc gameId validated ds
      else (i, d) # updateDoc gameId validated ds)"

definition gameService_updateGame ::
  "(jsval \<Rightarrow> jsnum) \<Rightarrow> jsval \<Rightarrow> string option \<Rightarrow> (nat \<Rightarrow> js_error + unit) \<Rightarrow>
   remote_store \<Rightarrow> string \<Rightarrow> jsobj \<Rightarrow> jsobj service_outcome"
where
  "gameService_updateGame conv now stored_pin updateDoc_try st gameId gameData =
     (case getUserPin stored_pin of
        None \<Rightarrow> \<lparr>result = Inl (DatabaseError ''No user PIN set'' None), store = st, events = []\<rparr>
      | Some userPin \<Rightarrow>
          (case validateGameData conv now gameData of
             Inl error \<Rightarrow>
               \<lparr>result = Inl (wrap_error ''Failed to update game: '' error), store = st, events = []\<rparr>
           | Inr v0 \<Rightarrow>
               (let validated = v0(''lastModified'' \<mapsto> now, ''userPin'' \<mapsto> JStr userPin)
                in case withRetry_default updateDoc_try of
                     (Returned u, evs) \<Rightarrow>
                       \<lparr>result = Inr (with_id gameId validated),
                        store = st\<lparr>docs := updateDoc gameId validated (docs st)\<rparr>, events = evs\<rparr>
                   | (Threw error, evs) \<Rightarrow>
                       \<lparr>result = Inl (wrap_error ''Failed to update game: '' error), store = st,
                        events = evs\<rparr>
                   | (ReturnedUndefined, evs) \<Rightarrow>
                       \<lparr>result = Inr Map.empty, store = st, events = evs\<rparr>)))"

text \<open>
  \<open>loadGames\<close>: the query is one operation under \<open>withRetry\<close>; an attempt answers with the
  documents of this PIN or fails.
\<close>

definition gameService_loadGames ::
  "string option \<Rightarrow> (nat \<Rightarrow> js_error + jsobj list) \<Rightarrow> remote_store \<Rightarrow> (jsobj list) service_outcome"
where
  "gameService_loadGames stored_pin getDocs st =
     (case getUserPin stored_pin of
        None \<Rightarrow> \<lparr>result = Inl (DatabaseError ''No user PIN set'' None), store = st, events = []\<rparr>
      | Some userPin \<Rightarrow>
          (case withRetry_default getDocs of
             (Returned games, evs) \<Rightarrow> \<lparr>result = Inr games, store = st, events = evs\<rparr>
           | (Threw error, evs) \<Rightarrow>
               \<lparr>result = Inl (wrap_error ''Failed to load games: '' error), store = st, events = evs\<rparr>
           | (ReturnedUndefined, evs) \<Rightarrow> \<lparr>result = Inr [], store = st, events = evs\<rparr>))"

definition gameService_deleteGame ::
  "(nat \<Rightarrow> js_error + unit) \<Rightarrow> remote_store \<Rightarrow> string \<Rightarrow> bool service_outcome"
where
  "gameService_deleteGame deleteDoc_try st gameId =
     (case withRetry_default deleteDoc_try of
        (Returned u, evs) \<Rightarrow>
          \<lparr>result = Inr True, store = st\<lparr>docs := filter (\<lambda>(i, d). i \<noteq> gameId) (docs st)\<rparr>,
           events = evs\<rparr>
      | (Threw error, evs) \<Rightarrow>
          \<lparr>result = Inl (wrap_error ''Failed to delete game: '' error), store = st, events = evs\<rparr>
      | (ReturnedUndefined, evs) \<Rightarrow> \<lparr>result = Inr False, store = st, events = evs\<rparr>)"

section \<open>Timers: the two-half game timer\<close>

text \<open>
  The component's state (\<open>useState\<close> and \<open>useRef\<close> cells) and the \<open>halftimeMinutes\<close> prop
  owned by the parent. \<open>Date.now()\<close> is the parameter \<open>now\<close>, in milliseconds.
\<close>

record timer =
  seconds :: int
  isRunning :: bool
  currentHalf :: int
  startTimeRef :: "int option"
  accumulatedRef :: int
  halftimeMinutes :: int

definition initial_timer :: "int \<Rightarrow> timer" where
  "initial_timer m =
     \<lparr>seconds = 0, isRunning = False, currentHalf = 1, startTimeRef = None, accumulatedRef = 0,
      halftimeMinutes = m\<rparr>"

definition totalHalftimeSeconds :: "timer \<Rightarrow> int" where
  "totalHalftimeSeconds t = halftimeMinutes t * 60"

definition remainingSeconds :: "timer \<Rightarrow> int" where
  "remainingSeconds t = max 0 (totalHalftimeSeconds t - seconds t)"

definition isTimeUp :: "timer \<Rightarrow> bool" where
  "isTimeUp t = (remainingSeconds t = 0)"

definition totalGameSeconds :: "timer \<Rightarrow> int" where
  "totalGameSeconds t =
     (if currentHalf t = 1 then seconds t else totalHalftimeSeconds t + seconds t)"

text \<open>\<open>Date.now() - startTimeRef.current\<close>: a \<open>null\<close> reference counts as 0 in the subtraction.\<close>

definition since_start :: "int \<Rightarrow> timer \<Rightarrow> int" where
  "since_start now t = now - (case startTimeRef t of None \<Rightarrow> 0 | Some s \<Rightarrow> s)"

definition startTimer :: "int \<Rightarrow> timer \<Rightarrow> timer" where
  "startTimer now t =
     (if \<not> isRunning t \<and> \<not> isTimeUp t
      then t\<lparr>isRunning := True, startTimeRef := Some now\<rparr>
      else t)"

definition pauseTimer :: "int \<Rightarrow> timer \<Rightarrow> timer" where
  "pauseTimer now t =
     (if isRunning t then
        (let additionalTime = since_start now t div 1000;
             newTotal = accumulatedRef t + additionalTime
         in t\<lparr>accumulatedRef := newTotal, seconds := newTotal, isRunning := False\<rparr>)
      else t)"

definition startSecondHalf :: "timer \<Rightarrow> timer" where
  "startSecondHalf t =
     t\<lparr>currentHalf := 2, seconds := 0, accumulatedRef := 0, startTimeRef := None,
       isRunning := False\<rparr>"

definition resetTimer :: "timer \<Rightarrow> timer" where
  "resetTimer t =
     t\<lparr>isRunning := False, seconds := 0, currentHalf := 1, accumulatedRef := 0,
       startTimeRef := None\<rparr>"

text \<open>The effect "auto-pause when time is up".\<close>

definition autoPause :: "timer \<Rightarrow> timer" where
  "autoPause t = (if isTimeUp t \<and> isRunning t then t\<lparr>isRunning := False\<rparr> else t)"

text \<open>
  The interval callback. The interval exists only while \<open>isRunning && !isTimeUp\<close>; in every
  other state no callback runs.
\<close>

definition tick :: "int \<Rightarrow> timer \<Rightarrow> timer" where
  "tick now t =
     (if isRunning t \<and> \<not> isTimeUp t then
        (let elapsed = since_start now t div 1000;
             newTotal = accumulatedRef t + elapsed;
             cappedTotal = min newTotal (totalHalftimeSeconds t);
             t1 = (if cappedTotal \<noteq> seconds t then t\<lparr>seconds := cappedTotal\<rparr> else t)
         in if cappedTotal \<ge> totalHalftimeSeconds t then t1\<lparr>isRunning := False\<rparr> else t1)
      else t)"

text \<open>
  The effect on a change of \<open>halftimeMinutes\<close>: an out-of-range value is replaced by 30
  (which changes the prop again and re-runs the effect, now in range), and the timer is reset.
\<close>

definition halftimeMinutes_effect :: "timer \<Rightarrow> timer" where
  "halftimeMinutes_effect t =
     (if halftimeMinutes t < 1 \<or> halftimeMinutes t > 90
      then resetTimer (t\<lparr>halftimeMinutes := 30\<rparr>)
      else resetTimer t)"

text \<open>The duration selector: its \<open>disabled\<close> attribute and its \<open>onChange\<close>.\<close>

definition select_disabled :: "timer \<Rightarrow> bool" where
  "select_disabled t = (isRunning t \<or> currentHalf t = 2)"

text \<open>
  A disabled selector fires no event. An enabled one calls \<open>setHalftimeMinutes\<close>; a value equal
  to the current one changes no state, so no effect runs. The handler returns normally in
  every branch: the result is always \<open>Inr\<close>.
\<close>

definition select_onChange :: "int \<Rightarrow> timer \<Rightarrow> js_error + timer" where
  "select_onChange m t =
     (if select_disabled t then Inr t
      else if m = halftimeMinutes t then Inr t
      else Inr (halftimeMinutes_effect (t\<lparr>halftimeMinutes := m\<rparr>)))"

text \<open>The events of the timer, and one step: the handler, then the auto-pause effect.\<close>

datatype timer_event =
  Start int | Pause int | Tick int | StartSecondHalf | ResetGame

fun timer_step :: "timer_event \<Rightarrow> timer \<Rightarrow> timer" where
  "timer_step (Start now) t = autoPause (startTimer now t)"
| "timer_step (Pause now) t = autoPause (pauseTimer now t)"
| "timer_step (Tick now) t = autoPause (tick now t)"
| "timer_step StartSecondHalf t = autoPause (startSecondHalf t)"
| "timer_step ResetGame t = autoPause (resetTimer t)"

fun timer_run :: "timer_event list \<Rightarrow> timer \<Rightarrow> timer" where
  "timer_run [] t = t"
| "timer_run (e # es) t = timer_run es (timer_step e t)"

section \<open>GameStats: the live game session\<close>

subsection \<open>Formatting\<close>

text \<open>The \<open>%\<close> operator: the remainder has the sign of the dividend.\<close>

definition js_rem :: "int \<Rightarrow> int \<Rightarrow> int" where
  "js_rem a b = (if 0 \<le> a then a mod \<bar>b\<bar> else - ((- a) mod \<bar>b\<bar>))"

text \<open>\<open>s.padStart(2, "0")\<close>.\<close>

definition padStart2 :: "string \<Rightarrow> string" where
  "padStart2 s = replicate (2 - length s) CHR ''0'' @ s"

text \<open>\<open>formatTime\<close>: seconds to \<open>M:SS\<close>.\<close>

definition formatTime :: "int \<Rightarrow> string" where
  "formatTime totalSeconds =
     (let minutes = totalSeconds div 60;
          secs = js_rem totalSeconds 60
      in string_of_int minutes @ '':'' @ padStart2 (string_of_int secs))"

text \<open>
  \<open>input.trim()\<close> strips the white space and line terminators of the language: TAB, LF,
  VT, FF, CR, SPACE, NBSP, U+1680, U+2000 to U+200A, U+2028, U+2029, U+202F, U+205F, U+3000
  and U+FEFF.
\<close>

definition js_space :: "nat \<Rightarrow> bool" where
  "js_space c =
     (c \<in> set [0x09, 0x0A, 0x0B, 0x0C, 0x0D, 0x20, 0xA0, 0x1680, 0x2028, 0x2029, 0x202F, 0x205F,
               0x3000, 0xFEFF]
      \<or> (0x2000 \<le> c \<and> c \<le> 0x200A))"

text \<open>The class \<open>[\\x00-\\x1F\\x7F]\<close>.\<close>

definition control_char :: "nat \<Rightarrow> bool" where
  "control_char c = (c \<le> 0x1F \<or> c = 0x7F)"

text \<open>
  \<open>sanitizeInput\<close> on a string: the empty string is returned as it is; the regular
  expression \<open>/^[=+\\-@]/\<close> tests the first character of \<open>input.trim()\<close>, so of the trimming
  only the leading white space matters; a match puts a single quote (code 0x27) in front of
  the untrimmed input; otherwise the control characters are removed.
\<close>

definition sanitizeInput :: "jsstring \<Rightarrow> jsstring" where
  "sanitizeInput input =
     (if input = [] then input
      else (case dropWhile js_space input of
              c # rest \<Rightarrow>
                if c \<in> set (lit ''=+-@'')
                then 0x27 # input
                else filter (\<lambda>c. \<not> control_char c) input
            | [] \<Rightarrow> filter (\<lambda>c. \<not> control_char c) input))"

subsection \<open>State\<close>

text \<open>A logged goal: \<open>{time, minute, timestamp}\<close>.\<close>

record goal =
  time :: jsstring
  minute :: int
  timestamp :: int

text \<open>
  The stat counters of the component, one \<open>useState\<close> cell each in the source; here one
  cell per name.
\<close>

datatype stat =
  goalsLeft | goalsRight | shotsLeft | shotsRight | assists | passCompletions
| cornersTaken | cornerConversions
| offensive1v1Attempts | offensive1v1Won | defensive1v1Attempts | defensive1v1Won
| fouls | cards | gkShotsSaved | gkGoalsAgainst
| freeKicksTaken | freeKicksMade
| defensiveTackles | defensiveFailures | defensiveDisruption | defensiveDistribution

record goal_history =
  our :: "goal list"
  their :: "goal list"

text \<open>
  A saved game. The derived percentage strings (\<open>goalConversionRate\<close> and the like, printed
  by \<open>toFixed\<close>) and the metadata added by the database layer (\<open>lastModified\<close>, \<open>version\<close>,
  \<open>userPin\<close>) are not represented; no definition below reads them. Records written by older
  versions may lack the goal history.
\<close>

record game =
  g_id :: "string option"
  g_date :: jsstring
  g_playerName :: jsstring
  g_opponent :: jsstring
  g_gameType :: string
  g_ourGoals :: int
  g_theirGoals :: int
  g_gameResult :: string
  g_goalHistory :: "goal_history option"
  g_halftimeMinutes :: int
  g_halftimeElapsed :: string
  g_halftimeRemaining :: string
  g_halftimeComplete :: bool
  g_playerMinutesPlayed :: jsstring
  g_playerSecondsPlayed :: int
  g_stats :: "stat \<Rightarrow> int"
  g_gameNotes :: jsstring
  g_totalGoals :: int
  g_totalShots :: int
  g_createdAt :: "string option"

text \<open>
  The component state, with the parts of the environment the handlers write: the alerts
  shown, the array stored in \<open>localStorage\<close> under the PIN's key, and the due times of the
  pending \<open>setTimeout\<close> callbacks that release the goal lock.
\<close>

record session =
  date :: jsstring
  playerName :: jsstring
  opponent :: jsstring
  gameType :: string
  gs_halftimeMinutes :: int
  halftimeSeconds :: int
  playerMinutes :: int
  isAddingGoal :: bool
  ourGoals :: "goal list"
  theirGoals :: "goal list"
  stats :: "stat \<Rightarrow> int"
  gameNotes :: jsstring
  savedGames :: "game list"
  isLoading :: bool
  isSaving :: bool
  syncStatus :: string
  lastSyncTime :: "int option"
  alerts :: "string list"
  localStorage :: "game list option"
  unlock_due :: "int list"

definition MAX_GOALS_PER_GAME :: nat where
  "MAX_GOALS_PER_GAME = 20"

definition initial_session :: "jsstring \<Rightarrow> session" where
  "initial_session today =
     \<lparr>date = today, playerName = [], opponent = [], gameType = ''League'',
      gs_halftimeMinutes = 30, halftimeSeconds = 0, playerMinutes = 0,
      isAddingGoal = False, ourGoals = [], theirGoals = [], stats = (\<lambda>st. 0),
      gameNotes = [], savedGames = [], isLoading = True, isSaving = False,
      syncStatus = ''idle'',
      lastSyncTime = None, alerts = [], localStorage = None, unlock_due = []\<rparr>"

text \<open>\<open>handleHalftimeUpdate\<close>: the timer reports the total game seconds.\<close>

definition handleHalftimeUpdate :: "int \<Rightarrow> session \<Rightarrow> session" where
  "handleHalftimeUpdate secs s = s\<lparr>halftimeSeconds := secs\<rparr>"

subsection \<open>Goal logging\<close>

text \<open>
  The four handlers return normally in every branch (result \<open>Inr\<close>); none of them throws
  or reports a refusal. \<open>setTimeout(..., 500)\<close> is recorded as a pending callback due at
  \<open>now + 500\<close>.
\<close>

definition new_goal :: "int \<Rightarrow> session \<Rightarrow> goal" where
  "new_goal now s =
     \<lparr>time = lit (formatTime (halftimeSeconds s)), minute = halftimeSeconds s div 60,
      timestamp = now\<rparr>"

definition addOurGoal :: "int \<Rightarrow> session \<Rightarrow> js_error + session" where
  "addOurGoal now s =
     (if isAddingGoal s \<or> length (ourGoals s) \<ge> MAX_GOALS_PER_GAME then Inr s
      else Inr (s\<lparr>isAddingGoal := True, ourGoals := ourGoals s @ [new_goal now s],
                  unlock_due := unlock_due s @ [now + 500]\<rparr>))"

definition addTheirGoal :: "int \<Rightarrow> session \<Rightarrow> js_error + session" where
  "addTheirGoal now s =
     (if isAddingGoal s \<or> length (theirGoals s) \<ge> MAX_GOALS_PER_GAME then Inr s
      else Inr (s\<lparr>isAddingGoal := True, theirGoals := theirGoals s @ [new_goal now s],
                  unlock_due := unlock_due s @ [now + 500]\<rparr>))"

text \<open>\<open>prevGoals.slice(0, -1)\<close>: all but the last element, the empty array staying empty.\<close>

definition removeLastOurGoal :: "session \<Rightarrow> js_error + session" where
  "removeLastOurGoal s = (if isAddingGoal s then Inr s else Inr (s\<lparr>ourGoals := butlast (ourGoals s)\<rparr>))"

definition removeLastTheirGoal :: "session \<Rightarrow> js_error + session" where
  "removeLastTheirGoal s =
     (if isAddingGoal s then Inr s else Inr (s\<lparr>theirGoals := butlast (theirGoals s)\<rparr>))"

text \<open>
  The timer callbacks that are due at time \<open>now\<close> run: each one is
  \<open>setIsAddingGoal(false)\<close>. A callback never runs before its due time.
\<close>

definition run_timeouts :: "int \<Rightarrow> session \<Rightarrow> session" where
  "run_timeouts now s =
     (if list_ex (\<lambda>d. d \<le> now) (unlock_due s)
      then s\<lparr>isAddingGoal := False, unlock_due := filter (\<lambda>d. now < d) (unlock_due s)\<rparr>
      else s)"

text \<open>
  A click on one of the four goal buttons at a given time: the timers due by then have run,
  then the handler runs. A handler that threw would leave the state as it was.
\<close>

datatype goal_op = AddOurGoal | AddTheirGoal | RemoveLastOurGoal | RemoveLastTheirGoal

fun goal_handler :: "goal_op \<Rightarrow> int \<Rightarrow> session \<Rightarrow> js_error + session" where
  "goal_handler AddOurGoal now s = addOurGoal now s"
| "goal_handler AddTheirGoal now s = addTheirGoal now s"
| "goal_handler RemoveLastOurGoal now s = removeLastOurGoal s"
| "goal_handler RemoveLastTheirGoal now s = removeLastTheirGoal s"

definition click :: "goal_op \<Rightarrow> int \<Rightarrow> session \<Rightarrow> session" where
  "click op now s =
     (let s1 = run_timeouts now s
      in case goal_handler op now s1 of Inr s2 \<Rightarrow> s2 | Inl e \<Rightarrow> s1)"

fun clicks :: "(goal_op \<times> int) list \<Rightarrow> session \<Rightarrow> session" where
  "clicks [] s = s"
| "clicks ((op, now) # rest) s = clicks rest (click op now s)"

subsection \<open>The goal buttons as rendered\<close>

text \<open>
  The \<open>disabled\<close> attribute and the \<open>title\<close> (tooltip) of the two "Goal" buttons. The
  tooltip text is the template \<open>Maximum ${MAX_GOALS_PER_GAME} goals reached\<close>.
\<close>

definition ourGoal_disabled :: "session \<Rightarrow> bool" where
  "ourGoal_disabled s = (isAddingGoal s \<or> length (ourGoals s) \<ge> MAX_GOALS_PER_GAME)"

definition theirGoal_disabled :: "session \<Rightarrow> bool" where
  "theirGoal_disabled s = (isAddingGoal s \<or> length (theirGoals s) \<ge> MAX_GOALS_PER_GAME)"

definition ourGoal_title :: "session \<Rightarrow> string" where
  "ourGoal_title s =
     (if length (ourGoals s) \<ge> MAX_GOALS_PER_GAME
      then ''Maximum '' @ string_of_nat MAX_GOALS_PER_GAME @ '' goals reached''
      else ''Add goal for our team'')"

definition theirGoal_title :: "session \<Rightarrow> string" where
  "theirGoal_title s =
     (if length (theirGoals s) \<ge> MAX_GOALS_PER_GAME
      then ''Maximum '' @ string_of_nat MAX_GOALS_PER_GAME @ '' goals reached''
      else ''Add goal for their team'')"

subsection \<open>Stat counters\<close>

text \<open>\<open>increment\<close> and \<open>decrement\<close> compute the value handed to the setter.\<close>

definition increment :: "int \<Rightarrow> int" where
  "increment v = v + 1"

definition decrement :: "int \<Rightarrow> int" where
  "decrement v = (if v > 0 then v - 1 else 0)"

datatype stat_op = Increment stat | Decrement stat

fun stat_click :: "stat_op \<Rightarrow> session \<Rightarrow> session" where
  "stat_click (Increment st) s = s\<lparr>stats := (stats s)(st := increment (stats s st))\<rparr>"
| "stat_click (Decrement st) s = s\<lparr>stats := (stats s)(st := decrement (stats s st))\<rparr>"

fun stat_clicks :: "stat_op list \<Rightarrow> session \<Rightarrow> session" where
  "stat_clicks [] s = s"
| "stat_clicks (c # cs) s = stat_clicks cs (stat_click c s)"

subsection \<open>Saving a game\<close>

text \<open>\<open>validateStats\<close>: soft warnings. On the integer counters \<open>x || 0\<close> is \<open>x\<close>.\<close>

definition validateStats :: "(stat \<Rightarrow> int) \<Rightarrow> string list" where
  "validateStats st =
     (if st goalsLeft > st shotsLeft then [''Left foot goals exceed shots''] else []) @
     (if st goalsRight > st shotsRight then [''Right foot goals exceed shots''] else []) @
     (if st cornerConversions > st cornersTaken then [''Corner conversions exceed corners taken''] else []) @
     (if st offensive1v1Won > st offensive1v1Attempts then [''Offensive 1v1 won exceed attempts''] else []) @
     (if st defensive1v1Won > st defensive1v1Attempts then [''Defensive 1v1 won exceed attempts''] else []) @
     (if st freeKicksMade > st freeKicksTaken then [''Free kicks made exceed attempts''] else []) @
     (if st defensiveFailures > st defensiveTackles then [''Defensive failures exceed tackles''] else []) @
     (if st defensiveDistribution > st defensiveDisruption then [''Defensive distribution exceed disruption''] else [])"

definition gameResult_of :: "int \<Rightarrow> int \<Rightarrow> string" where
  "gameResult_of ourGoalCount theirGoalCount =
     (if ourGoalCount > theirGoalCount then ''Win''
      else if ourGoalCount < theirGoalCount then ''Loss''
      else ''Tie'')"

text \<open>The object literal \<open>newGame\<close>, built the same way in the \<open>try\<close> and the \<open>catch\<close> block.\<close>

definition newGame :: "session \<Rightarrow> game" where
  "newGame s =
     (let halftimeRemaining = max 0 (gs_halftimeMinutes s * 60 - halftimeSeconds s);
          ourGoalCount = int (length (ourGoals s));
          theirGoalCount = int (length (theirGoals s))
      in \<lparr>g_id = None,
          g_date = sanitizeInput (date s),
          g_playerName = sanitizeInput (playerName s),
          g_opponent = sanitizeInput (opponent s),
          g_gameType = gameType s,
          g_ourGoals = ourGoalCount,
          g_theirGoals = theirGoalCount,
          g_gameResult = gameResult_of ourGoalCount theirGoalCount,
          g_goalHistory = Some \<lparr>our = ourGoals s, their = theirGoals s\<rparr>,
          g_halftimeMinutes = gs_halftimeMinutes s,
          g_halftimeElapsed = formatTime (halftimeSeconds s),
          g_halftimeRemaining = formatTime halftimeRemaining,
          g_halftimeComplete = (halftimeSeconds s \<ge> gs_halftimeMinutes s * 60),
          g_playerMinutesPlayed = lit (formatTime (playerMinutes s)),
          g_playerSecondsPlayed = playerMinutes s,
          g_stats = stats s,
          g_gameNotes = sanitizeInput (gameNotes s),
          g_totalGoals = stats s goalsLeft + stats s goalsRight,
          g_totalShots = stats s shotsLeft + stats s shotsRight,
          g_createdAt = None\<rparr>)"

text \<open>
  \<open>saveToLocalStorage\<close>: \<open>setItem\<close> may throw (quota); the exception is caught and logged,
  so a failed write leaves the stored array as it was. \<open>ok\<close> says whether the write went
  through.
\<close>

definition saveToLocalStorage :: "bool \<Rightarrow> game list \<Rightarrow> session \<Rightarrow> session" where
  "saveToLocalStorage ok games s = (if ok then s\<lparr>localStorage := Some games\<rparr> else s)"

text \<open>The resets at the end of both blocks: every counter, both goal lists, the notes.\<close>

definition reset_stats :: "session \<Rightarrow> session" where
  "reset_stats s = s\<lparr>stats := (\<lambda>st. 0), ourGoals := [], theirGoals := [], gameNotes := []\<rparr>"

definition save_failed_message :: "js_error \<Rightarrow> string" where
  "save_failed_message error =
     (if err_name error = ''DatabaseError''
      then ''Save failed: '' @ err_message error @
           ''. Your data has been saved locally and will sync when connection is restored.''
      else ''Failed to save game to cloud. Data saved locally and will sync later.'')"

text \<open>
  \<open>saveGame\<close>. Parameters: the user's answer to the confirmation dialog (asked only when
  there are warnings), \<open>Date.now()\<close>, the text of \<open>new Date().toISOString()\<close>, what
  \<open>await gameService.saveGame(newGame)\<close> produced (the stored game, or the error thrown),
  and whether the \<open>localStorage\<close> write goes through.
\<close>

definition saveGame ::
  "bool \<Rightarrow> int \<Rightarrow> string \<Rightarrow> (js_error + game) \<Rightarrow> bool \<Rightarrow> session \<Rightarrow> session"
where
  "saveGame confirmed now isoString remote ok s =
     (if length (validateStats (stats s)) > 0 \<and> \<not> confirmed then s
      else
        (let s1 = s\<lparr>isSaving := True, syncStatus := ''syncing''\<rparr>
         in case remote of
              Inr savedGame \<Rightarrow>
                (let updatedGames = savedGame # savedGames s1;
                     s2 = saveToLocalStorage ok updatedGames (s1\<lparr>savedGames := updatedGames\<rparr>);
                     s3 = s2\<lparr>lastSyncTime := Some now, syncStatus := ''synced''\<rparr>
                 in (reset_stats s3)\<lparr>isSaving := False\<rparr>)
            | Inl error \<Rightarrow>
                (let s2 = s1\<lparr>syncStatus := ''error'',
                              alerts := alerts s1 @ [save_failed_message error]\<rparr>;
                     localGame = (newGame s2)\<lparr>g_id := Some (''local_'' @ string_of_int now),
                                               g_createdAt := Some isoString\<rparr>;
                     updatedGames = localGame # savedGames s2;
                     s3 = saveToLocalStorage ok updatedGames (s2\<lparr>savedGames := updatedGames\<rparr>)
                 in (reset_stats s3)\<lparr>isSaving := False\<rparr>)))"

subsection \<open>Loading the saved games\<close>

text \<open>
  \<open>loadGamesFromFirebase\<close>, run at start-up and by the \<open>online\<close> event. Parameters: what
  \<open>await gameService.loadGames()\<close> produced; the text that \<open>new Date(c).toISOString()\<close>
  gives for a stored \<open>createdAt\<close>, or the present time's text when there is none; and
  \<open>Date.now()\<close>. A successful load replaces the list of saved games by the remote one;
  \<open>localStorage\<close> is read only when the load fails, and written by neither branch.
\<close>

definition loadGamesFromFirebase ::
  "(js_error + game list) \<Rightarrow> (string option \<Rightarrow> string) \<Rightarrow> int \<Rightarrow> session \<Rightarrow> session"
where
  "loadGamesFromFirebase remote isoOf now s =
     (let s1 = s\<lparr>syncStatus := ''syncing''\<rparr>
      in case remote of
           Inr games \<Rightarrow>
             (let compatibleGames = map (\<lambda>g. g\<lparr>g_createdAt := Some (isoOf (g_createdAt g))\<rparr>) games
              in s1\<lparr>savedGames := compatibleGames, lastSyncTime := Some now,
                     syncStatus := ''synced'', isLoading := False\<rparr>)
         | Inl error \<Rightarrow>
             (case localStorage s1 of
                Some fallbackGames \<Rightarrow>
                  s1\<lparr>syncStatus := ''error'', savedGames := fallbackGames, isLoading := False\<rparr>
              | None \<Rightarrow> s1\<lparr>syncStatus := ''error'', isLoading := False\<rparr>))"

subsection \<open>The counters of the older GameStats component\<close>

text \<open>
  The copy of the component in \<open>src/components/GameStats.jsx\<close> keeps these counters, one
  \<open>useState\<close> cell each (names shared with the current component carry a prime). Twenty
  of them are on screen, all but \<open>shotsLeft\<close> and \<open>shotsRight\<close>.
\<close>

datatype older_stat =
  goalsLeft' | goalsRight' | shotsLeft' | shotsRight' | assists' | passCompletions'
| cornersTaken' | cornerConversions' | fouls' | cards' | gkShotsSaved' | gkGoalsAgainst'
| shotsOnFrameLeft | shotsOnFrameRight | shotsOffFrameLeft | shotsOffFrameRight
| headersMade | headerGoals | pksTaken | pksMade | freeKicksTaken' | freeKicksMade'

text \<open>
  The setter calls that end both the \<open>try\<close> and the \<open>catch\<close> block of its \<open>saveGame\<close>, on
  the counters.
\<close>

definition older_reset :: "(older_stat \<Rightarrow> int) \<Rightarrow> (older_stat \<Rightarrow> int)" where
  "older_reset st =
     st(goalsLeft' := 0, goalsRight' := 0, shotsLeft' := 0, shotsRight' := 0,
        assists' := 0, passCompletions' := 0, cornersTaken' := 0, cornerConversions' := 0,
        fouls' := 0, cards' := 0, gkShotsSaved' := 0, gkGoalsAgainst' := 0)"

subsection \<open>The goal timeline, on screen and in the CSV export\<close>





section \<open>GameHistory: editing a saved game\<close>

text \<open>
  The edit form holds text fields, the two score fields, twelve of the counters, and (in
  the current component) the goal history. Numeric inputs are read with \<open>Number(value)\<close>;
  the model covers integer entries.
\<close>

text \<open>
  Both versions of \<open>saveEdit\<close> declare their own \<open>validateStats\<close>, with three checks.
\<close>

definition validateStats_form :: "(stat \<Rightarrow> int) \<Rightarrow> string list" where
  "validateStats_form st =
     (if st goalsLeft > st shotsLeft then [''Left foot goals exceed shots''] else []) @
     (if st goalsRight > st shotsRight then [''Right foot goals exceed shots''] else []) @
     (if st cornerConversions > st cornersTaken then [''Corner conversions exceed corners taken''] else [])"

definition form_stats :: "stat list" where
  "form_stats =
     [goalsLeft, goalsRight, shotsLeft, shotsRight, assists, passCompletions,
      cornersTaken, cornerConversions, fouls, cards, gkShotsSaved, gkGoalsAgainst]"

record editFormData =
  e_date :: jsstring
  e_playerName :: jsstring
  e_opponent :: jsstring
  e_ourGoals :: int
  e_theirGoals :: int
  e_stats :: "stat \<Rightarrow> int"
  e_playerMinutesPlayed :: jsstring
  e_gameNotes :: jsstring
  e_goalHistory :: goal_history

text \<open>\<open>{...game, ...editFormData}\<close> on the counters: the form's twelve override the game's.\<close>

definition merged_stats :: "(stat \<Rightarrow> int) \<Rightarrow> (stat \<Rightarrow> int) \<Rightarrow> stat \<Rightarrow> int" where
  "merged_stats game_stats form st = (if st \<in> set form_stats then form st else game_stats st)"

definition startEditing :: "game \<Rightarrow> editFormData" where
  "startEditing g =
     \<lparr>e_date = g_date g, e_playerName = g_playerName g, e_opponent = g_opponent g,
      e_ourGoals = g_ourGoals g, e_theirGoals = g_theirGoals g, e_stats = g_stats g,
      e_playerMinutesPlayed =
        (if g_playerMinutesPlayed g = [] then lit ''0:00'' else g_playerMinutesPlayed g),
      e_gameNotes = g_gameNotes g,
      e_goalHistory = (case g_goalHistory g of None \<Rightarrow> \<lparr>our = [], their = []\<rparr> | Some gh \<Rightarrow> gh)\<rparr>"

text \<open>\<open>handleInputChange\<close> on a numeric field.\<close>

datatype number_field = OurGoals | TheirGoals | Counter stat

fun handleInputChange :: "number_field \<Rightarrow> int \<Rightarrow> editFormData \<Rightarrow> editFormData" where
  "handleInputChange OurGoals v form = form\<lparr>e_ourGoals := v\<rparr>"
| "handleInputChange TheirGoals v form = form\<lparr>e_theirGoals := v\<rparr>"
| "handleInputChange (Counter st) v form = form\<lparr>e_stats := (e_stats form)(st := v)\<rparr>"

text \<open>
  \<open>saveEdit\<close> of the current component: the object handed to \<open>onUpdateGame\<close>, or nothing when
  the user declines the warning dialog. \<open>playerSeconds\<close> is \<open>parseTimeToSeconds\<close> of the
  minutes field.
\<close>

definition saveEdit :: "bool \<Rightarrow> int \<Rightarrow> game \<Rightarrow> editFormData \<Rightarrow> game option" where
  "saveEdit confirmed playerSeconds g form =
     (if length (validateStats_form (e_stats form)) > 0 \<and> \<not> confirmed
      then None
      else Some (g\<lparr>g_date := e_date form,
                   g_playerName := e_playerName form,
                   g_opponent := e_opponent form,
                   g_stats := merged_stats (g_stats g) (e_stats form),
                   g_gameNotes := e_gameNotes form,
                   g_goalHistory := Some (e_goalHistory form),
                   g_ourGoals := int (length (our (e_goalHistory form))),
                   g_theirGoals := int (length (their (e_goalHistory form))),
                   g_playerMinutesPlayed := e_playerMinutesPlayed form,
                   g_playerSecondsPlayed := playerSeconds,
                   g_totalGoals := e_stats form goalsLeft + e_stats form goalsRight,
                   g_totalShots := e_stats form shotsLeft + e_stats form shotsRight,
                   g_gameResult := gameResult_of (int (length (our (e_goalHistory form))))
                                                 (int (length (their (e_goalHistory form))))\<rparr>))"

subsection \<open>The earlier GameHistory component\<close>

text \<open>
  Its form has no goal history, minutes or notes; the score fields are edited as numbers.
\<close>

record legacy_form =
  l_date :: jsstring
  l_playerName :: jsstring
  l_opponent :: jsstring
  l_ourGoals :: int
  l_theirGoals :: int
  l_stats :: "stat \<Rightarrow> int"

definition legacy_startEditing :: "game \<Rightarrow> legacy_form" where
  "legacy_startEditing g =
     \<lparr>l_date = g_date g, l_playerName = g_playerName g, l_opponent = g_opponent g,
      l_ourGoals = g_ourGoals g, l_theirGoals = g_theirGoals g, l_stats = g_stats g\<rparr>"

fun legacy_handleInputChange :: "number_field \<Rightarrow> int \<Rightarrow> legacy_form \<Rightarrow> legacy_form" where
  "legacy_handleInputChange OurGoals v form = form\<lparr>l_ourGoals := v\<rparr>"
| "legacy_handleInputChange TheirGoals v form = form\<lparr>l_theirGoals := v\<rparr>"
| "legacy_handleInputChange (Counter st) v form = form\<lparr>l_stats := (l_stats form)(st := v)\<rparr>"

definition legacy_saveEdit :: "bool \<Rightarrow> game \<Rightarrow> legacy_form \<Rightarrow> game option" where
  "legacy_saveEdit confirmed g form =
     (if length (validateStats_form (l_stats form)) > 0 \<and> \<not> confirmed
      then None
      else Some (g\<lparr>g_date := l_date form,
                   g_playerName := l_playerName form,
                   g_opponent := l_opponent form,
                   g_ourGoals := l_ourGoals form,
                   g_theirGoals := l_theirGoals form,
                   g_stats := merged_stats (g_stats g) (l_stats form),
                   g_totalGoals := l_stats form goalsLeft + l_stats form goalsRight,
                   g_totalShots := l_stats form shotsLeft + l_stats form shotsRight,
                   g_gameResult := gameResult_of (l_ourGoals form) (l_theirGoals form)\<rparr>))"

section \<open>The first App component: counters without a floor\<close>

datatype app_stat =
  app_goalsLeft | app_goalsRight | app_shotsLeft | app_shotsRight
| app_offenseSuccess | app_offenseFail | app_defenseSuccess | app_defenseFail

text \<open>\<open>handleStatChange(stat, delta)\<close>: the "+" button passes 1, the "-" button passes -1.\<close>

definition handleStatChange :: "app_stat \<Rightarrow> int \<Rightarrow> (app_stat \<Rightarrow> int) \<Rightarrow> (app_stat \<Rightarrow> int)" where
  "handleStatChange st delta prev = prev(st := prev st + delta)"

definition app_initial_stats :: "app_stat \<Rightarrow> int" where
  "app_initial_stats = (\<lambda>st. 0)"

section \<open>Vocabulary of the properties\<close>

text \<open>
  The retry schedule with \<open>n\<close> attempts: attempt \<open>k\<close>, then a sleep of
  \<open>1000 * 2^(k-1)\<close> milliseconds, for every attempt but the last.
\<close>

definition backoff_trace :: "nat \<Rightarrow> retry_event list" where
  "backoff_trace n =
     concat (map (\<lambda>k. [Attempt k, Sleep (1000 * 2 ^ (k - 1))]) [1..<n]) @ [Attempt n]"

text \<open>
  An attempt ends the retrying when it succeeds or fails with the code \<open>permission-denied\<close>;
  the third attempt is the last in any case.
\<close>

definition ends_retry :: "js_error + 'a \<Rightarrow> bool" where
  "ends_retry outcome =
     (case outcome of Inr v \<Rightarrow> True | Inl e \<Rightarrow> err_code e = Some ''permission-denied'')"

definition attempts_made :: "(nat \<Rightarrow> js_error + 'a) \<Rightarrow> nat" where
  "attempts_made operation =
     (if ends_retry (operation 1) then 1 else if ends_retry (operation 2) then 2 else 3)"

text \<open>No remote attempt at all, or the schedule with one, two or three attempts.\<close>

definition within_retry_budget :: "retry_event list \<Rightarrow> bool" where
  "within_retry_budget evs =
     (evs = [] \<or> evs = backoff_trace 1 \<or> evs = backoff_trace 2 \<or> evs = backoff_trace 3)"

text \<open>
  What \<open>validateGameData\<close> stores for a numeric field holding \<open>v\<close>: 0 for NaN and for a
  negative number, the floor otherwise.
\<close>

definition sanitize_value :: "(jsval \<Rightarrow> jsnum) \<Rightarrow> jsval \<Rightarrow> jsnum" where
  "sanitize_value conv v =
     (let n = Number_js conv v in if isNaN n \<or> lt_zero n then Fin 0 else Math_floor n)"

text \<open>One field of every stored document, with the document id.\<close>

definition persisted_field :: "remote_store \<Rightarrow> string \<Rightarrow> (string \<times> jsval option) list" where
  "persisted_field st field = map (\<lambda>(i, d). (i, d field)) (docs st)"

text \<open>
  The goal lock and its release callback go together: while the lock is held exactly one
  callback is pending, otherwise none.
\<close>

definition lock_inv :: "session \<Rightarrow> bool" where
  "lock_inv s = (if isAddingGoal s then length (unlock_due s) = 1 else unlock_due s = [])"

text \<open>
  The score of a saved game agrees with its goal history, and the result with the score.
\<close>

definition record_consistent :: "game \<Rightarrow> bool" where
  "record_consistent g =
     ((case g_goalHistory g of
         None \<Rightarrow> False
       | Some gh \<Rightarrow>
           g_ourGoals g = int (length (our gh)) \<and> g_theirGoals g = int (length (their gh))) \<and>
      g_gameResult g =
        (if g_ourGoals g > g_theirGoals g then ''Win''
         else if g_ourGoals g < g_theirGoals g then ''Loss'' else ''Tie''))"

section \<open>Sample data\<close>

definition denied :: js_error where
  "denied =
     \<lparr>err_name = ''FirebaseError'', err_message = ''Missing or insufficient permissions.'',
      err_code = Some ''permission-denied''\<rparr>"

definition offline :: js_error where
  "offline =
     \<lparr>err_name = ''FirebaseError'',
      err_message = ''Failed to get document because the client is offline.'',
      err_code = Some ''unavailable''\<rparr>"

text \<open>No string or object occurs in the numeric fields of the samples.\<close>

definition no_strings :: "jsval \<Rightarrow> jsnum" where
  "no_strings v = NaN"

definition accepting_store :: "nat \<Rightarrow> js_error + string" where
  "accepting_store k = Inr ''doc1''"

definition infinite_fouls_game :: jsobj where
  "infinite_fouls_game =
     [''date'' \<mapsto> JStr ''2024-05-01'', ''playerName'' \<mapsto> JStr ''Ann'', ''fouls'' \<mapsto> JNum PosInf]"

text \<open>Timer states: the first half running, and the second half paused after 100 seconds.\<close>

definition first_half_running :: timer where
  "first_half_running =
     \<lparr>seconds = 0, isRunning = True, currentHalf = 1, startTimeRef = Some 0,
      accumulatedRef = 0, halftimeMinutes = 30\<rparr>"

definition second_half_paused :: timer where
  "second_half_paused =
     \<lparr>seconds = 100, isRunning = False, currentHalf = 2, startTimeRef = Some 1900000,
      accumulatedRef = 100, halftimeMinutes = 30\<rparr>"

text \<open>Sessions.\<close>

definition kickoff :: session where
  "kickoff = initial_session (lit ''2024-05-01'')"

definition full_session :: session where
  "full_session =
     kickoff\<lparr>ourGoals :=
       map (\<lambda>k. \<lparr>time = lit ''0:00'', minute = 0, timestamp = 1000 * int k\<rparr>) [0..<20]\<rparr>"

definition locked_session :: session where
  "locked_session = click AddTheirGoal 1000 kickoff"




definition busy_session :: session where
  "busy_session =
     (click AddOurGoal 1000 (handleHalftimeUpdate 185 kickoff))
       \<lparr>playerName := lit ''Ann'', opponent := lit ''Rovers'',
        stats := (\<lambda>st. 0)(shotsLeft := 2, goalsLeft := 1, fouls := 1),
        gameNotes := lit ''windy''\<rparr>"

definition outage :: js_error where
  "outage = wrap_error ''Failed to save game: '' offline"

text \<open>The game of \<open>busy_session\<close> as the remote store returned it: one goal to nil.\<close>

definition saved_one_nil :: game where
  "saved_one_nil = (newGame busy_session)\<lparr>g_id := Some ''doc1''\<rparr>"

text \<open>
  The save of \<open>busy_session\<close> during an outage; then the connection returns and the games
  are loaded from the remote store, which never received that game; then the next game is
  saved and the store answers with the id \<open>doc2\<close>.
\<close>

definition after_outage :: session where
  "after_outage =
     saveGame False 1714560000000 ''2024-05-01T10:40:00.000Z'' (Inl outage) True busy_session"

definition stored_iso :: "string option \<Rightarrow> string" where
  "stored_iso c = (case c of None \<Rightarrow> ''2024-05-01T11:00:00.000Z'' | Some t \<Rightarrow> t)"

definition after_reconnect :: session where
  "after_reconnect = loadGamesFromFirebase (Inr []) stored_iso 1714561200000 after_outage"

definition after_next_save :: session where
  "after_next_save =
     saveGame False 1714567800000 ''2024-05-01T12:50:00.000Z''
       (Inr ((newGame after_reconnect)\<lparr>g_id := Some ''doc2''\<rparr>)) True after_reconnect"


text \<open>Counters of the older component: two headers made, everything else at 0.\<close>

definition two_headers :: "older_stat \<Rightarrow> int" where
  "two_headers = (\<lambda>st. 0)(headersMade := 2)"

section \<open>Properties of the database layer\<close>

subsection \<open>withRetry with the default arguments\<close>

lemma backoff_trace_simps:
  "backoff_trace 1 = [Attempt 1]"
  "backoff_trace 2 = [Attempt 1, Sleep 1000, Attempt 2]"
  "backoff_trace 3 = [Attempt 1, Sleep 1000, Attempt 2, Sleep 2000, Attempt 3]"
  by (simp_all add: backoff_trace_def upt_rec)

lemma withRetry_loop_third:
  "withRetry_loop operation 3 delay 3 =
     (case operation 3 of Inr v \<Rightarrow> (Returned v, [Attempt 3]) | Inl e \<Rightarrow> (Threw e, [Attempt 3]))"
  by (subst withRetry_loop.simps) (simp split: sum.splits)

lemma withRetry_loop_second:
  "withRetry_loop operation 3 delay 2 =
     (case operation 2 of
        Inr v \<Rightarrow> (Returned v, [Attempt 2])
      | Inl e \<Rightarrow>
          if err_code e = Some ''permission-denied'' then (Threw e, [Attempt 2])
          else (fst (withRetry_loop operation 3 delay 3),
                Attempt 2 # Sleep (delay * 2) # snd (withRetry_loop operation 3 delay 3)))"
  by (subst withRetry_loop.simps) (simp split: sum.splits prod.splits)

lemma withRetry_loop_first:
  "withRetry_loop operation 3 delay 1 =
     (case operation 1 of
        Inr v \<Rightarrow> (Returned v, [Attempt 1])
      | Inl e \<Rightarrow>
          if err_code e = Some ''permission-denied'' then (Threw e, [Attempt 1])
          else (fst (withRetry_loop operation 3 delay 2),
                Attempt 1 # Sleep delay # snd (withRetry_loop operation 3 delay 2)))"
proof -
  have two: "(1::nat) + 1 = 2" by simp
  show ?thesis
    by (subst withRetry_loop.simps) (simp add: two split: sum.splits prod.splits del: One_nat_def)
qed

text \<open>The loop with three attempts, unrolled: every way it can end.\<close>

lemma withRetry_default_cases:
  "withRetry_default operation =
     (case operation 1 of
        Inr v \<Rightarrow> (Returned v, backoff_trace 1)
      | Inl e1 \<Rightarrow>
          if err_code e1 = Some ''permission-denied'' then (Threw e1, backoff_trace 1)
          else (case operation 2 of
                  Inr v \<Rightarrow> (Returned v, backoff_trace 2)
                | Inl e2 \<Rightarrow>
                    if err_code e2 = Some ''permission-denied'' then (Threw e2, backoff_trace 2)
                    else (case operation 3 of
                            Inr v \<Rightarrow> (Returned v, backoff_trace 3)
                          | Inl e3 \<Rightarrow> (Threw e3, backoff_trace 3))))"
  unfolding withRetry_default_def withRetry_def backoff_trace_simps
    withRetry_loop_first withRetry_loop_second withRetry_loop_third
  by (simp split: sum.splits del: One_nat_def)

lemma withRetry_default_budget: "within_retry_budget (snd (withRetry_default operation))"
  by (simp add: withRetry_default_cases within_retry_budget_def split: sum.splits del: One_nat_def)

lemma withRetry_default_calls: "fst (withRetry_default operation) \<noteq> ReturnedUndefined"
  by (simp add: withRetry_default_cases split: sum.splits del: One_nat_def)

lemma saveGame_budget:
  "within_retry_budget (events (gameService_saveGame conv now pin addDoc st gameData))"
  using withRetry_default_budget [of addDoc]
  by (auto simp: gameService_saveGame_def within_retry_budget_def Let_def
           split: option.splits sum.splits prod.splits retry_result.splits)

lemma loadGames_budget:
  "within_retry_budget (events (gameService_loadGames pin getDocs st))"
  using withRetry_default_budget [of getDocs]
  by (auto simp: gameService_loadGames_def within_retry_budget_def
           split: option.splits prod.splits retry_result.splits)

lemma updateGame_budget:
  "within_retry_budget (events (gameService_updateGame conv now pin upd st gameId gameData))"
  using withRetry_default_budget [of upd]
  by (auto simp: gameService_updateGame_def within_retry_budget_def Let_def
           split: option.splits sum.splits prod.splits retry_result.splits)

lemma deleteGame_budget:
  "within_retry_budget (events (gameService_deleteGame del st gameId))"
  using withRetry_default_budget [of del]
  by (auto simp: gameService_deleteGame_def within_retry_budget_def
           split: prod.splits retry_result.splits)


text \<open>
  The attempts made by the loop, and what the four operations of \<open>gameService\<close> make of
  its outcome.
\<close>

lemma attempts_made_range: "1 \<le> attempts_made operation \<and> attempts_made operation \<le> 3"
  by (simp add: attempts_made_def)

lemma withRetry_default_made:
  "withRetry_default operation =
     ((case operation (attempts_made operation) of Inr v \<Rightarrow> Returned v | Inl e \<Rightarrow> Threw e),
      backoff_trace (attempts_made operation))"
  by (simp add: withRetry_default_cases attempts_made_def ends_retry_def
        split: sum.splits del: One_nat_def)

lemma deleteGame_retry:
  "events (gameService_deleteGame del st gameId) = backoff_trace (attempts_made del) \<and>
   result (gameService_deleteGame del st gameId) =
     (case del (attempts_made del) of
        Inr u \<Rightarrow> Inr True
      | Inl e \<Rightarrow>
          Inl \<lparr>err_name = ''DatabaseError'',
               err_message = ''Failed to delete game: '' @ err_message e,
               err_code = Some (case err_code e of None \<Rightarrow> ''unknown'' | Some c \<Rightarrow> c)\<rparr>) \<and>
   docs (store (gameService_deleteGame del st gameId)) =
     (case del (attempts_made del) of
        Inr u \<Rightarrow> filter (\<lambda>(i, d). i \<noteq> gameId) (docs st)
      | Inl e \<Rightarrow> docs st)"
  by (simp add: gameService_deleteGame_def withRetry_default_made wrap_error_def DatabaseError_def
        split: sum.splits)

lemma loadGames_retry:
  "pin = Some p \<and> p \<noteq> [] \<longrightarrow>
   events (gameService_loadGames pin getDocs st) = backoff_trace (attempts_made getDocs) \<and>
   result (gameService_loadGames pin getDocs st) =
     (case getDocs (attempts_made getDocs) of
        Inr games \<Rightarrow> Inr games
      | Inl e \<Rightarrow>
          Inl \<lparr>err_name = ''DatabaseError'',
               err_message = ''Failed to load games: '' @ err_message e,
               err_code = Some (case err_code e of None \<Rightarrow> ''unknown'' | Some c \<Rightarrow> c)\<rparr>) \<and>
   store (gameService_loadGames pin getDocs st) = st"
  by (simp add: gameService_loadGames_def getUserPin_def withRetry_default_made wrap_error_def
        DatabaseError_def split: sum.splits)

lemma saveGame_retry:
  "pin = Some p \<and> p \<noteq> [] \<and> validateGameData conv now gameData = Inr v \<longrightarrow>
   events (gameService_saveGame conv now pin addDoc st gameData) = backoff_trace (attempts_made addDoc) \<and>
   result (gameService_saveGame conv now pin addDoc st gameData) =
     (case addDoc (attempts_made addDoc) of
        Inr docId \<Rightarrow> Inr ([''id'' \<mapsto> JStr docId] ++ v(''userPin'' \<mapsto> JStr p, ''createdAt'' \<mapsto> now))
      | Inl e \<Rightarrow>
          Inl \<lparr>err_name = ''DatabaseError'',
               err_message = ''Failed to save game: '' @ err_message e,
               err_code = Some (case err_code e of None \<Rightarrow> ''unknown'' | Some c \<Rightarrow> c)\<rparr>) \<and>
   docs (store (gameService_saveGame conv now pin addDoc st gameData)) =
     (case addDoc (attempts_made addDoc) of
        Inr docId \<Rightarrow> docs st @ [(docId, v(''userPin'' \<mapsto> JStr p, ''createdAt'' \<mapsto> now))]
      | Inl e \<Rightarrow> docs st)"
  by (simp add: gameService_saveGame_def getUserPin_def withRetry_default_made wrap_error_def
        DatabaseError_def with_id_def Let_def split: sum.splits)

lemma updateGame_retry:
  "pin = Some p \<and> p \<noteq> [] \<and> validateGameData conv now gameData = Inr v \<longrightarrow>
   events (gameService_updateGame conv now pin upd st gameId gameData) = backoff_trace (attempts_made upd) \<and>
   result (gameService_updateGame conv now pin upd st gameId gameData) =
     (case upd (attempts_made upd) of
        Inr u \<Rightarrow> Inr ([''id'' \<mapsto> JStr gameId] ++ v(''lastModified'' \<mapsto> now, ''userPin'' \<mapsto> JStr p))
      | Inl e \<Rightarrow>
          Inl \<lparr>err_name = ''DatabaseError'',
               err_message = ''Failed to update game: '' @ err_message e,
               err_code = Some (case err_code e of None \<Rightarrow> ''unknown'' | Some c \<Rightarrow> c)\<rparr>) \<and>
   docs (store (gameService_updateGame conv now pin upd st gameId gameData)) =
     (case upd (attempts_made upd) of
        Inr u \<Rightarrow> updateDoc gameId (v(''lastModified'' \<mapsto> now, ''userPin'' \<mapsto> JStr p)) (docs st)
      | Inl e \<Rightarrow> docs st)"
  by (simp add: gameService_updateGame_def getUserPin_def withRetry_default_made wrap_error_def
        DatabaseError_def with_id_def Let_def split: sum.splits)

lemma no_attempt_without_pin:
  "pin = None \<or> pin = Some [] \<longrightarrow>
   events (gameService_saveGame conv now pin addDoc st gameData) = [] \<and>
   events (gameService_loadGames pin getDocs st) = [] \<and>
   events (gameService_updateGame conv now pin upd st gameId gameData) = []"
  by (auto simp: gameService_saveGame_def gameService_loadGames_def gameService_updateGame_def
        getUserPin_def)

text \<open>The two ways an operation fails: at once when permission is denied, or after three attempts.\<close>

lemma saveGame_denied:
  "pin = Some p \<and>
    p \<noteq> [] \<and>
    validateGameData conv now gameData = Inr v \<and>
    addDoc 1 = Inl e \<and>
    err_code e = Some ''permission-denied'' \<longrightarrow>
      events (gameService_saveGame conv now pin addDoc st gameData) = [Attempt 1] \<and>
      result (gameService_saveGame conv now pin addDoc st gameData)
        = Inl \<lparr>err_name = ''DatabaseError'',
                err_message = ''Failed to save game: '' @ err_message e,
                err_code = Some ''permission-denied''\<rparr> \<and>
      store (gameService_saveGame conv now pin addDoc st gameData) = st"
proof (intro impI)
  assume h: "pin = Some p \<and> p \<noteq> [] \<and> validateGameData conv now gameData = Inr v \<and> addDoc 1 = Inl e \<and> err_code e = Some ''permission-denied''"
  then have am: "attempts_made addDoc = 1"
    by (simp add: attempts_made_def ends_retry_def)
  show "events (gameService_saveGame conv now pin addDoc st gameData) = [Attempt 1] \<and>
      result (gameService_saveGame conv now pin addDoc st gameData)
        = Inl \<lparr>err_name = ''DatabaseError'',
                err_message = ''Failed to save game: '' @ err_message e,
                err_code = Some ''permission-denied''\<rparr> \<and>
      store (gameService_saveGame conv now pin addDoc st gameData) = st"
    using h
    by (simp add: gameService_saveGame_def getUserPin_def withRetry_default_made am backoff_trace_simps wrap_error_def
          DatabaseError_def Let_def del: One_nat_def)
qed

lemma saveGame_exhausted:
  "pin = Some p \<and>
    p \<noteq> [] \<and>
    validateGameData conv now gameData = Inr v \<and>
    addDoc 1 = Inl e1 \<and>
    addDoc 2 = Inl e2 \<and>
    addDoc 3 = Inl e3 \<and>
    err_code e1 \<noteq> Some ''permission-denied'' \<and>
    err_code e2 \<noteq> Some ''permission-denied'' \<longrightarrow>
      events (gameService_saveGame conv now pin addDoc st gameData)
        = [Attempt 1, Sleep 1000, Attempt 2, Sleep 2000, Attempt 3] \<and>
      result (gameService_saveGame conv now pin addDoc st gameData)
        = Inl \<lparr>err_name = ''DatabaseError'',
                err_message = ''Failed to save game: '' @ err_message e3,
                err_code = Some (case err_code e3 of None \<Rightarrow> ''unknown'' | Some c \<Rightarrow> c)\<rparr> \<and>
      store (gameService_saveGame conv now pin addDoc st gameData) = st"
proof (intro impI)
  assume h: "pin = Some p \<and> p \<noteq> [] \<and> validateGameData conv now gameData = Inr v \<and> addDoc 1 = Inl e1 \<and> addDoc 2 = Inl e2 \<and> addDoc 3 = Inl e3 \<and> err_code e1 \<noteq> Some ''permission-denied'' \<and> err_code e2 \<noteq> Some ''permission-denied''"
  then have am: "attempts_made addDoc = 3"
    by (simp add: attempts_made_def ends_retry_def)
  show "events (gameService_saveGame conv now pin addDoc st gameData)
        = [Attempt 1, Sleep 1000, Attempt 2, Sleep 2000, Attempt 3] \<and>
      result (gameService_saveGame conv now pin addDoc st gameData)
        = Inl \<lparr>err_name = ''DatabaseError'',
                err_message = ''Failed to save game: '' @ err_message e3,
                err_code = Some (case err_code e3 of None \<Rightarrow> ''unknown'' | Some c \<Rightarrow> c)\<rparr> \<and>
      store (gameService_saveGame conv now pin addDoc st gameData) = st"
    using h
    by (simp add: gameService_saveGame_def getUserPin_def withRetry_default_made am backoff_trace_simps wrap_error_def
          DatabaseError_def Let_def del: One_nat_def)
qed

lemma loadGames_denied:
  "pin = Some p \<and>
    p \<noteq> [] \<and>
    getDocs 1 = Inl e \<and>
    err_code e = Some ''permission-denied'' \<longrightarrow>
      events (gameService_loadGames pin getDocs st) = [Attempt 1] \<and>
      result (gameService_loadGames pin getDocs st)
        = Inl \<lparr>err_name = ''DatabaseError'',
                err_message = ''Failed to load games: '' @ err_message e,
                err_code = Some ''permission-denied''\<rparr> \<and>
      store (gameService_loadGames pin getDocs st) = st"
proof (intro impI)
  assume h: "pin = Some p \<and> p \<noteq> [] \<and> getDocs 1 = Inl e \<and> err_code e = Some ''permission-denied''"
  then have am: "attempts_made getDocs = 1"
    by (simp add: attempts_made_def ends_retry_def)
  show "events (gameService_loadGames pin getDocs st) = [Attempt 1] \<and>
      result (gameService_loadGames pin getDocs st)
        = Inl \<lparr>err_name = ''DatabaseError'',
                err_message = ''Failed to load games: '' @ err_message e,
                err_code = Some ''permission-denied''\<rparr> \<and>
      store (gameService_loadGames pin getDocs st) = st"
    using h
    by (simp add: gameService_loadGames_def getUserPin_def withRetry_default_made am backoff_trace_simps wrap_error_def
          DatabaseError_def Let_def del: One_nat_def)
qed

lemma loadGames_exhausted:
  "pin = Some p \<and>
    p \<noteq> [] \<and>
    getDocs 1 = Inl e1 \<and>
    getDocs 2 = Inl e2 \<and>
    getDocs 3 = Inl e3 \<and>
    err_code e1 \<noteq> Some ''permission-denied'' \<and>
    err_code e2 \<noteq> Some ''permission-denied'' \<longrightarrow>
      events (gameService_loadGames pin getDocs st)
        = [Attempt 1, Sleep 1000, Attempt 2, Sleep 2000, Attempt 3] \<and>
      result (gameService_loadGames pin getDocs st)
        = Inl \<lparr>err_name = ''DatabaseError'',
                err_message = ''Failed to load games: '' @ err_message e3,
                err_code = Some (case err_code e3 of None \<Rightarrow> ''unknown'' | Some c \<Rightarrow> c)\<rparr> \<and>
      store (gameService_loadGames pin getDocs st) = st"
proof (intro impI)
  assume h: "pin = Some p \<and> p \<noteq> [] \<and> getDocs 1 = Inl e1 \<and> getDocs 2 = Inl e2 \<and> getDocs 3 = Inl e3 \<and> err_code e1 \<noteq> Some ''permission-denied'' \<and> err_code e2 \<noteq> Some ''permission-denied''"
  then have am: "attempts_made getDocs = 3"
    by (simp add: attempts_made_def ends_retry_def)
  show "events (gameService_loadGames pin getDocs st)
        = [Attempt 1, Sleep 1000, Attempt 2, Sleep 2000, Attempt 3] \<and>
      result (gameService_loadGames pin getDocs st)
        = Inl \<lparr>err_name = ''DatabaseError'',
                err_message = ''Failed to load games: '' @ err_message e3,
                err_code = Some (case err_code e3 of None \<Rightarrow> ''unknown'' | Some c \<Rightarrow> c)\<rparr> \<and>
      store (gameService_loadGames pin getDocs st) = st"
    using h
    by (simp add: gameService_loadGames_def getUserPin_def withRetry_default_made am backoff_trace_simps wrap_error_def
          DatabaseError_def Let_def del: One_nat_def)
qed

lemma updateGame_denied:
  "pin = Some p \<and>
    p \<noteq> [] \<and>
    validateGameData conv now gameData = Inr v \<and>
    upd 1 = Inl e \<and>
    err_code e = Some ''permission-denied'' \<longrightarrow>
      events (gameService_updateGame conv now pin upd st gameId gameData) = [Attempt 1] \<and>
      result (gameService_updateGame conv now pin upd st gameId gameData)
        = Inl \<lparr>err_name = ''DatabaseError'',
                err_message = ''Failed to update game: '' @ err_message e,
                err_code = Some ''permission-denied''\<rparr> \<and>
      store (gameService_updateGame conv now pin upd st gameId gameData) = st"
proof (intro impI)
  assume h: "pin = Some p \<and> p \<noteq> [] \<and> validateGameData conv now gameData = Inr v \<and> upd 1 = Inl e \<and> err_code e = Some ''permission-denied''"
  then have am: "attempts_made upd = 1"
    by (simp add: attempts_made_def ends_retry_def)
  show "events (gameService_updateGame conv now pin upd st gameId gameData) = [Attempt 1] \<and>
      result (gameService_updateGame conv now pin upd st gameId gameData)
        = Inl \<lparr>err_name = ''DatabaseError'',
                err_message = ''Failed to update game: '' @ err_message e,
                err_code = Some ''permission-denied''\<rparr> \<and>
      store (gameService_updateGame conv now pin upd st gameId gameData) = st"
    using h
    by (simp add: gameService_updateGame_def getUserPin_def withRetry_default_made am backoff_trace_simps wrap_error_def
          DatabaseError_def Let_def del: One_nat_def)
qed

lemma updateGame_exhausted:
  "pin = Some p \<and>
    p \<noteq> [] \<and>
    validateGameData conv now gameData = Inr v \<and>
    upd 1 = Inl e1 \<and>
    upd 2 = Inl e2 \<and>
    upd 3 = Inl e3 \<and>
    err_code e1 \<noteq> Some ''permission-denied'' \<and>
    err_code e2 \<noteq> Some ''permission-denied'' \<longrightarrow>
      events (gameService_updateGame conv now pin upd st gameId gameData)
        = [Attempt 1, Sleep 1000, Attempt 2, Sleep 2000, Attempt 3] \<and>
      result (gameService_updateGame conv now pin upd st gameId gameData)
        = Inl \<lparr>err_name = ''DatabaseError'',
                err_message = ''Failed to update game: '' @ err_message e3,
                err_code = Some (case err_code e3 of None \<Rightarrow> ''unknown'' | Some c \<Rightarrow> c)\<rparr> \<and>
      store (gameService_updateGame conv now pin upd st gameId gameData) = st"
proof (intro impI)
  assume h: "pin = Some p \<and> p \<noteq> [] \<and> validateGameData conv now gameData = Inr v \<and> upd 1 = Inl e1 \<and> upd 2 = Inl e2 \<and> upd 3 = Inl e3 \<and> err_code e1 \<noteq> Some ''permission-denied'' \<and> err_code e2 \<noteq> Some ''permission-denied''"
  then have am: "attempts_made upd = 3"
    by (simp add: attempts_made_def ends_retry_def)
  show "events (gameService_updateGame conv now pin upd st gameId gameData)
        = [Attempt 1, Sleep 1000, Attempt 2, Sleep 2000, Attempt 3] \<and>
      result (gameService_updateGame conv now pin upd st gameId gameData)
        = Inl \<lparr>err_name = ''DatabaseError'',
                err_message = ''Failed to update game: '' @ err_message e3,
                err_code = Some (case err_code e3 of None \<Rightarrow> ''unknown'' | Some c \<Rightarrow> c)\<rparr> \<and>
      store (gameService_updateGame conv now pin upd st gameId gameData) = st"
    using h
    by (simp add: gameService_updateGame_def getUserPin_def withRetry_default_made am backoff_trace_simps wrap_error_def
          DatabaseError_def Let_def del: One_nat_def)
qed

lemma deleteGame_denied:
  "del 1 = Inl e \<and>
    err_code e = Some ''permission-denied'' \<longrightarrow>
      events (gameService_deleteGame del st gameId) = [Attempt 1] \<and>
      result (gameService_deleteGame del st gameId)
        = Inl \<lparr>err_name = ''DatabaseError'',
                err_message = ''Failed to delete game: '' @ err_message e,
                err_code = Some ''permission-denied''\<rparr> \<and>
      store (gameService_deleteGame del st gameId) = st"
proof (intro impI)
  assume h: "del 1 = Inl e \<and> err_code e = Some ''permission-denied''"
  then have am: "attempts_made del = 1"
    by (simp add: attempts_made_def ends_retry_def)
  show "events (gameService_deleteGame del st gameId) = [Attempt 1] \<and>
      result (gameService_deleteGame del st gameId)
        = Inl \<lparr>err_name = ''DatabaseError'',
                err_message = ''Failed to delete game: '' @ err_message e,
                err_code = Some ''permission-denied''\<rparr> \<and>
      store (gameService_deleteGame del st gameId) = st"
    using h
    by (simp add: gameService_deleteGame_def withRetry_default_made am backoff_trace_simps wrap_error_def
          DatabaseError_def Let_def del: One_nat_def)
qed

lemma deleteGame_exhausted:
  "del 1 = Inl e1 \<and>
    del 2 = Inl e2 \<and>
    del 3 = Inl e3 \<and>
    err_code e1 \<noteq> Some ''permission-denied'' \<and>
    err_code e2 \<noteq> Some ''permission-denied'' \<longrightarrow>
      events (gameService_deleteGame del st gameId)
        = [Attempt 1, Sleep 1000, Attempt 2, Sleep 2000, Attempt 3] \<and>
      result (gameService_deleteGame del st gameId)
        = Inl \<lparr>err_name = ''DatabaseError'',
                err_message = ''Failed to delete game: '' @ err_message e3,
                err_code = Some (case err_code e3 of None \<Rightarrow> ''unknown'' | Some c \<Rightarrow> c)\<rparr> \<and>
      store (gameService_deleteGame del st gameId) = st"
proof (intro impI)
  assume h: "del 1 = Inl e1 \<and> del 2 = Inl e2 \<and> del 3 = Inl e3 \<and> err_code e1 \<noteq> Some ''permission-denied'' \<and> err_code e2 \<noteq> Some ''permission-denied''"
  then have am: "attempts_made del = 3"
    by (simp add: attempts_made_def ends_retry_def)
  show "events (gameService_deleteGame del st gameId)
        = [Attempt 1, Sleep 1000, Attempt 2, Sleep 2000, Attempt 3] \<and>
      result (gameService_deleteGame del st gameId)
        = Inl \<lparr>err_name = ''DatabaseError'',
                err_message = ''Failed to delete game: '' @ err_message e3,
                err_code = Some (case err_code e3 of None \<Rightarrow> ''unknown'' | Some c \<Rightarrow> c)\<rparr> \<and>
      store (gameService_deleteGame del st gameId) = st"
    using h
    by (simp add: gameService_deleteGame_def withRetry_default_made am backoff_trace_simps wrap_error_def
          DatabaseError_def Let_def del: One_nat_def)
qed

text \<open>
  C4. Each of the four remote operations (save, load, update, delete) of \<open>gameService\<close>,
  once past the PIN test and the validation that come before its remote call, produces
  exactly the retry schedule of the number of attempts made: between one and three
  attempts, attempt \<open>k\<close> followed, when another attempt comes, by a sleep of
  \<open>1000 * 2^(k-1)\<close> ms (1000 ms, then 2000 ms). The attempts stop at the first one
  that succeeds or fails with code \<open>permission-denied\<close>, and at the third in any case. For each of the four, a first attempt
  failing with code \<open>permission-denied\<close> is the only attempt: no sleep, the error
  rethrown wrapped in a \<open>DatabaseError\<close> with that code, the store unchanged. For each
  of the four, three attempts failing with other codes give three attempts with sleeps of
  1000 and 2000 ms, the third error rethrown wrapped, the store unchanged.
\<close>

theorem remote_operations_bounded_retry:
  "backoff_trace 1 = [Attempt 1] \<and>
   backoff_trace 2 = [Attempt 1, Sleep (1000 * 2 ^ (1 - 1)), Attempt 2] \<and>
   backoff_trace 3 =
     [Attempt 1, Sleep (1000 * 2 ^ (1 - 1)), Attempt 2, Sleep (1000 * 2 ^ (2 - 1)), Attempt 3] \<and>
   1 \<le> attempts_made addDoc \<and> attempts_made addDoc \<le> 3 \<and>
   1 \<le> attempts_made getDocs \<and> attempts_made getDocs \<le> 3 \<and>
   1 \<le> attempts_made upd \<and> attempts_made upd \<le> 3 \<and>
   1 \<le> attempts_made del \<and> attempts_made del \<le> 3 \<and>
   attempts_made operation =
     (if (case operation 1 of Inr r \<Rightarrow> True | Inl e \<Rightarrow> err_code e = Some ''permission-denied'')
      then 1
      else if (case operation 2 of Inr r \<Rightarrow> True
               | Inl e \<Rightarrow> err_code e = Some ''permission-denied'')
      then 2 else 3) \<and>
   (pin = Some p \<and> p \<noteq> [] \<and> validateGameData conv now gameData = Inr v \<longrightarrow>
      events (gameService_saveGame conv now pin addDoc st gameData) = backoff_trace (attempts_made addDoc)) \<and>
   (pin = Some p \<and> p \<noteq> [] \<longrightarrow>
      events (gameService_loadGames pin getDocs st) = backoff_trace (attempts_made getDocs)) \<and>
   (pin = Some p \<and> p \<noteq> [] \<and> validateGameData conv now gameData = Inr v \<longrightarrow>
      events (gameService_updateGame conv now pin upd st gameId gameData) = backoff_trace (attempts_made upd)) \<and>
   events (gameService_deleteGame del st gameId) = backoff_trace (attempts_made del) \<and>
   (pin = Some p \<and>
    p \<noteq> [] \<and>
    validateGameData conv now gameData = Inr v \<and>
    addDoc 1 = Inl e \<and>
    err_code e = Some ''permission-denied'' \<longrightarrow>
      events (gameService_saveGame conv now pin addDoc st gameData) = [Attempt 1] \<and>
      result (gameService_saveGame conv now pin addDoc st gameData)
        = Inl \<lparr>err_name = ''DatabaseError'',
                err_message = ''Failed to save game: '' @ err_message e,
                err_code = Some ''permission-denied''\<rparr> \<and>
      store (gameService_saveGame conv now pin addDoc st gameData) = st) \<and>
   (pin = Some p \<and>
    p \<noteq> [] \<and>
    getDocs 1 = Inl e \<and>
    err_code e = Some ''permission-denied'' \<longrightarrow>
      events (gameService_loadGames pin getDocs st) = [Attempt 1] \<and>
      result (gameService_loadGames pin getDocs st)
        = Inl \<lparr>err_name = ''DatabaseError'',
                err_message = ''Failed to load games: '' @ err_message e,
                err_code = Some ''permission-denied''\<rparr> \<and>
      store (gameService_loadGames pin getDocs st) = st) \<and>
   (pin = Some p \<and>
    p \<noteq> [] \<and>
    validateGameData conv now gameData = Inr v \<and>
    upd 1 = Inl e \<and>
    err_code e = Some ''permission-denied'' \<longrightarrow>
      events (gameService_updateGame conv now pin upd st gameId gameData) = [Attempt 1] \<and>
      result (gameService_updateGame conv now pin upd st gameId gameData)
        = Inl \<lparr>err_name = ''DatabaseError'',
                err_message = ''Failed to update game: '' @ err_message e,
                err_code = Some ''permission-denied''\<rparr> \<and>
      store (gameService_updateGame conv now pin upd st gameId gameData) = st) \<and>
   (del 1 = Inl e \<and>
    err_code e = Some ''permission-denied'' \<longrightarrow>
      events (gameService_deleteGame del st gameId) = [Attempt 1] \<and>
      result (gameService_deleteGame del st gameId)
        = Inl \<lparr>err_name = ''DatabaseError'',
                err_message = ''Failed to delete game: '' @ err_message e,
                err_code = Some ''permission-denied''\<rparr> \<and>
      store (gameService_deleteGame del st gameId) = st) \<and>
   (pin = Some p \<and>
    p \<noteq> [] \<and>
    validateGameData conv now gameData = Inr v \<and>
    addDoc 1 = Inl e1 \<and>
    addDoc 2 = Inl e2 \<and>
    addDoc 3 = Inl e3 \<and>
    err_code e1 \<noteq> Some ''permission-denied'' \<and>
    err_code e2 \<noteq> Some ''permission-denied'' \<longrightarrow>
      events (gameService_saveGame conv now pin addDoc st gameData)
        = [Attempt 1, Sleep 1000, Attempt 2, Sleep 2000, Attempt 3] \<and>
      result (gameService_saveGame conv now pin addDoc st gameData)
        = Inl \<lparr>err_name = ''DatabaseError'',
                err_message = ''Failed to save game: '' @ err_message e3,
                err_code = Some (case err_code e3 of None \<Rightarrow> ''unknown'' | Some c \<Rightarrow> c)\<rparr> \<and>
      store (gameService_saveGame conv now pin addDoc st gameData) = st) \<and>
   (pin = Some p \<and>
    p \<noteq> [] \<and>
    getDocs 1 = Inl e1 \<and>
    getDocs 2 = Inl e2 \<and>
    getDocs 3 = Inl e3 \<and>
    err_code e1 \<noteq> Some ''permission-denied'' \<and>
    err_code e2 \<noteq> Some ''permission-denied'' \<longrightarrow>
      events (gameService_loadGames pin getDocs st)
        = [Attempt 1, Sleep 1000, Attempt 2, Sleep 2000, Attempt 3] \<and>
      result (gameService_loadGames pin getDocs st)
        = Inl \<lparr>err_name = ''DatabaseError'',
                err_message = ''Failed to load games: '' @ err_message e3,
                err_code = Some (case err_code e3 of None \<Rightarrow> ''unknown'' | Some c \<Rightarrow> c)\<rparr> \<and>
      store (gameService_loadGames pin getDocs st) = st) \<and>
   (pin = Some p \<and>
    p \<noteq> [] \<and>
    validateGameData conv now gameData = Inr v \<and>
    upd 1 = Inl e1 \<and>
    upd 2 = Inl e2 \<and>
    upd 3 = Inl e3 \<and>
    err_code e1 \<noteq> Some ''permission-denied'' \<and>
    err_code e2 \<noteq> Some ''permission-denied'' \<longrightarrow>
      events (gameService_updateGame conv now pin upd st gameId gameData)
        = [Attempt 1, Sleep 1000, Attempt 2, Sleep 2000, Attempt 3] \<and>
      result (gameService_updateGame conv now pin upd st gameId gameData)
        = Inl \<lparr>err_name = ''DatabaseError'',
                err_message = ''Failed to update game: '' @ err_message e3,
                err_code = Some (case err_code e3 of None \<Rightarrow> ''unknown'' | Some c \<Rightarrow> c)\<rparr> \<and>
      store (gameService_updateGame conv now pin upd st gameId gameData) = st) \<and>
   (del 1 = Inl e1 \<and>
    del 2 = Inl e2 \<and>
    del 3 = Inl e3 \<and>
    err_code e1 \<noteq> Some ''permission-denied'' \<and>
    err_code e2 \<noteq> Some ''permission-denied'' \<longrightarrow>
      events (gameService_deleteGame del st gameId)
        = [Attempt 1, Sleep 1000, Attempt 2, Sleep 2000, Attempt 3] \<and>
      result (gameService_deleteGame del st gameId)
        = Inl \<lparr>err_name = ''DatabaseError'',
                err_message = ''Failed to delete game: '' @ err_message e3,
                err_code = Some (case err_code e3 of None \<Rightarrow> ''unknown'' | Some c \<Rightarrow> c)\<rparr> \<and>
      store (gameService_deleteGame del st gameId) = st)"
proof -
  have sched: "backoff_trace 1 = [Attempt 1] \<and>
   backoff_trace 2 = [Attempt 1, Sleep (1000 * 2 ^ (1 - 1)), Attempt 2] \<and>
   backoff_trace 3 =
     [Attempt 1, Sleep (1000 * 2 ^ (1 - 1)), Attempt 2, Sleep (1000 * 2 ^ (2 - 1)), Attempt 3] \<and>
   1 \<le> attempts_made addDoc \<and> attempts_made addDoc \<le> 3 \<and>
   1 \<le> attempts_made getDocs \<and> attempts_made getDocs \<le> 3 \<and>
   1 \<le> attempts_made upd \<and> attempts_made upd \<le> 3 \<and>
   1 \<le> attempts_made del \<and> attempts_made del \<le> 3 \<and>
   attempts_made operation =
     (if (case operation 1 of Inr r \<Rightarrow> True | Inl e \<Rightarrow> err_code e = Some ''permission-denied'')
      then 1
      else if (case operation 2 of Inr r \<Rightarrow> True
               | Inl e \<Rightarrow> err_code e = Some ''permission-denied'')
      then 2 else 3)"
    using attempts_made_range [of addDoc] attempts_made_range [of getDocs]
      attempts_made_range [of upd] attempts_made_range [of del]
    by (simp add: backoff_trace_simps attempts_made_def ends_retry_def del: One_nat_def)
  have sv: "pin = Some p \<and> p \<noteq> [] \<and> validateGameData conv now gameData = Inr v \<longrightarrow>
      events (gameService_saveGame conv now pin addDoc st gameData) = backoff_trace (attempts_made addDoc)"
    using saveGame_retry [of pin p conv now gameData v addDoc st] by blast
  have ld: "pin = Some p \<and> p \<noteq> [] \<longrightarrow>
      events (gameService_loadGames pin getDocs st) = backoff_trace (attempts_made getDocs)"
    using loadGames_retry [of pin p getDocs st] by blast
  have up: "pin = Some p \<and> p \<noteq> [] \<and> validateGameData conv now gameData = Inr v \<longrightarrow>
      events (gameService_updateGame conv now pin upd st gameId gameData) = backoff_trace (attempts_made upd)"
    using updateGame_retry [of pin p conv now gameData v upd st gameId] by blast
  have dl: "events (gameService_deleteGame del st gameId) = backoff_trace (attempts_made del)"
    using deleteGame_retry [of del st gameId] by blast
  show ?thesis
    using sched sv ld up dl
      saveGame_denied [of pin p conv now gameData v addDoc e st]
      loadGames_denied [of pin p getDocs e st]
      updateGame_denied [of pin p conv now gameData v upd e st gameId]
      deleteGame_denied [of del e st gameId]
      saveGame_exhausted [of pin p conv now gameData v addDoc e1 e2 e3 st]
      loadGames_exhausted [of pin p getDocs e1 e2 e3 st]
      updateGame_exhausted [of pin p conv now gameData v upd e1 e2 e3 st gameId]
      deleteGame_exhausted [of del e1 e2 e3 st gameId]
    by blast
qed

text \<open>
  C4, instances: a store that denies permission, one that is offline at every attempt, and
  a delete that succeeds at its second attempt.
\<close>

theorem remote_operations_bounded_retry_witness:
  "events (gameService_saveGame no_strings (JObj ''Date'') (Some ''1234'') (\<lambda>k. Inl denied)
             \<lparr>docs = [(''doc0'', Map.empty)]\<rparr> infinite_fouls_game) = [Attempt 1] \<and>
   store (gameService_saveGame no_strings (JObj ''Date'') (Some ''1234'') (\<lambda>k. Inl denied)
             \<lparr>docs = [(''doc0'', Map.empty)]\<rparr> infinite_fouls_game)
     = \<lparr>docs = [(''doc0'', Map.empty)]\<rparr> \<and>
   events (gameService_loadGames (Some ''1234'') (\<lambda>k. Inl denied)
             \<lparr>docs = [(''doc0'', Map.empty)]\<rparr>) = [Attempt 1] \<and>
   events (gameService_updateGame no_strings (JObj ''Date'') (Some ''1234'') (\<lambda>k. Inl denied)
             \<lparr>docs = [(''doc0'', Map.empty)]\<rparr> ''doc0'' infinite_fouls_game) = [Attempt 1] \<and>
   store (gameService_updateGame no_strings (JObj ''Date'') (Some ''1234'') (\<lambda>k. Inl denied)
             \<lparr>docs = [(''doc0'', Map.empty)]\<rparr> ''doc0'' infinite_fouls_game)
     = \<lparr>docs = [(''doc0'', Map.empty)]\<rparr> \<and>
   events (gameService_deleteGame (\<lambda>k. Inl denied) \<lparr>docs = [(''doc0'', Map.empty)]\<rparr> ''doc0'')
     = [Attempt 1] \<and>
   result (gameService_deleteGame (\<lambda>k. Inl denied) \<lparr>docs = [(''doc0'', Map.empty)]\<rparr> ''doc0'')
     = Inl \<lparr>err_name = ''DatabaseError'',
             err_message = ''Failed to delete game: Missing or insufficient permissions.'',
             err_code = Some ''permission-denied''\<rparr> \<and>
   store (gameService_deleteGame (\<lambda>k. Inl denied) \<lparr>docs = [(''doc0'', Map.empty)]\<rparr> ''doc0'')
     = \<lparr>docs = [(''doc0'', Map.empty)]\<rparr> \<and>
   events (gameService_saveGame no_strings (JObj ''Date'') (Some ''1234'') (\<lambda>k. Inl offline)
             \<lparr>docs = [(''doc0'', Map.empty)]\<rparr> infinite_fouls_game)
     = [Attempt 1, Sleep 1000, Attempt 2, Sleep 2000, Attempt 3] \<and>
   events (gameService_loadGames (Some ''1234'') (\<lambda>k. Inl offline)
             \<lparr>docs = [(''doc0'', Map.empty)]\<rparr>)
     = [Attempt 1, Sleep 1000, Attempt 2, Sleep 2000, Attempt 3] \<and>
   result (gameService_loadGames (Some ''1234'') (\<lambda>k. Inl offline)
             \<lparr>docs = [(''doc0'', Map.empty)]\<rparr>)
     = Inl \<lparr>err_name = ''DatabaseError'',
             err_message =
               ''Failed to load games: Failed to get document because the client is offline.'',
             err_code = Some ''unavailable''\<rparr> \<and>
   events (gameService_updateGame no_strings (JObj ''Date'') (Some ''1234'') (\<lambda>k. Inl offline)
             \<lparr>docs = [(''doc0'', Map.empty)]\<rparr> ''doc0'' infinite_fouls_game)
     = [Attempt 1, Sleep 1000, Attempt 2, Sleep 2000, Attempt 3] \<and>
   events (gameService_deleteGame (\<lambda>k. Inl offline) \<lparr>docs = [(''doc0'', Map.empty)]\<rparr> ''doc0'')
     = [Attempt 1, Sleep 1000, Attempt 2, Sleep 2000, Attempt 3] \<and>
   store (gameService_deleteGame (\<lambda>k. Inl offline) \<lparr>docs = [(''doc0'', Map.empty)]\<rparr> ''doc0'')
     = \<lparr>docs = [(''doc0'', Map.empty)]\<rparr> \<and>
   events (gameService_deleteGame (\<lambda>k. if k = 1 then Inl offline else Inr ())
             \<lparr>docs = [(''doc0'', Map.empty)]\<rparr> ''doc0'')
     = [Attempt 1, Sleep 1000, Attempt 2]"
proof -
  have "filter (\<lambda>field. \<not> truthy (getprop infinite_fouls_game field)) required = []"
    by (simp add: required_def infinite_fouls_game_def getprop_def)
  then obtain s where s: "validateGameData no_strings (JObj ''Date'') infinite_fouls_game = Inr s"
    by (simp add: validateGameData_def)
  have made: "attempts_made (\<lambda>k. if k = 1 then Inl offline else (Inr () :: js_error + unit)) = 2"
    by (simp add: attempts_made_def ends_retry_def offline_def)
  show ?thesis
    using remote_operations_bounded_retry
      [where pin = "Some ''1234''" and p = "''1234''" and conv = no_strings and now = "JObj ''Date''"
         and gameData = infinite_fouls_game and v = s and gameId = "''doc0''"
         and st = "\<lparr>docs = [(''doc0'', Map.empty)]\<rparr>"
         and e = denied and ?e1.0 = offline and ?e2.0 = offline and ?e3.0 = offline
         and operation = "\<lambda>k. if k = 1 then Inl offline else (Inr () :: js_error + unit)"
         and addDoc = "\<lambda>k. Inl denied" and getDocs = "\<lambda>k. Inl denied"
         and upd = "\<lambda>k. Inl denied" and del = "\<lambda>k. Inl denied"]
      remote_operations_bounded_retry
      [where pin = "Some ''1234''" and p = "''1234''" and conv = no_strings and now = "JObj ''Date''"
         and gameData = infinite_fouls_game and v = s and gameId = "''doc0''"
         and st = "\<lparr>docs = [(''doc0'', Map.empty)]\<rparr>"
         and e = denied and ?e1.0 = offline and ?e2.0 = offline and ?e3.0 = offline
         and operation = "\<lambda>k. if k = 1 then Inl offline else (Inr () :: js_error + unit)"
         and addDoc = "\<lambda>k. Inl offline" and getDocs = "\<lambda>k. Inl offline"
         and upd = "\<lambda>k. Inl offline" and del = "\<lambda>k. Inl offline"]
      remote_operations_bounded_retry
      [where pin = "Some ''1234''" and p = "''1234''" and conv = no_strings and now = "JObj ''Date''"
         and gameData = infinite_fouls_game and v = s and gameId = "''doc0''"
         and st = "\<lparr>docs = [(''doc0'', Map.empty)]\<rparr>"
         and e = denied and ?e1.0 = offline and ?e2.0 = offline and ?e3.0 = offline
         and operation = "\<lambda>k. if k = 1 then Inl offline else (Inr () :: js_error + unit)"
         and addDoc = "\<lambda>k. Inl offline" and getDocs = "\<lambda>k. Inl offline"
         and upd = "\<lambda>k. Inl offline"
         and del = "\<lambda>k. if k = 1 then Inl offline else Inr ()"]
    by (simp add: s made denied_def offline_def attempts_made_def ends_retry_def
          backoff_trace_simps del: One_nat_def)
qed

subsection \<open>validateGameData\<close>

lemma sanitize_field_other: "f \<noteq> field \<Longrightarrow> sanitize_field conv m field f = m f"
  by (simp add: sanitize_field_def Let_def)

lemma sanitize_field_same:
  "sanitize_field conv m field field =
     (case m field of
        None \<Rightarrow> None
      | Some v \<Rightarrow> if v = JUndefined then Some JUndefined else Some (JNum (sanitize_value conv v)))"
  by (simp add: sanitize_field_def sanitize_value_def getprop_def Let_def split: option.splits)

lemma foldl_sanitize_other:
  "f \<notin> set fs \<Longrightarrow> foldl (sanitize_field conv) m fs f = m f"
  by (induction fs arbitrary: m) (auto simp: sanitize_field_other)

lemma foldl_sanitize_member:
  "distinct fs \<Longrightarrow> f \<in> set fs \<Longrightarrow>
   foldl (sanitize_field conv) m fs f = sanitize_field conv m f f"
proof (induction fs arbitrary: m)
  case Nil
  then show ?case by simp
next
  case (Cons a fs)
  show ?case
  proof (cases "f = a")
    case True
    with Cons.prems have "f \<notin> set fs" by simp
    then show ?thesis using True by (simp add: foldl_sanitize_other)
  next
    case False
    with Cons.prems have mem: "f \<in> set fs" and d: "distinct fs" by simp_all
    have "foldl (sanitize_field conv) (sanitize_field conv m a) fs f
            = sanitize_field conv (sanitize_field conv m a) f f"
      using Cons.IH [OF d mem] .
    also have "\<dots> = sanitize_field conv m f f"
      using False by (simp add: sanitize_field_same sanitize_field_other)
    finally show ?thesis by simp
  qed
qed

lemma distinct_numericFields: "distinct numericFields"
  by (simp add: numericFields_def)

lemma metadata_not_numeric:
  "''lastModified'' \<notin> set numericFields" "''version'' \<notin> set numericFields"
  "''userPin'' \<notin> set numericFields" "''createdAt'' \<notin> set numericFields"
  by (simp_all add: numericFields_def)

text \<open>
  The stored value of a numeric field is a non-negative integer, with one exception:
  \<open>Infinity\<close> passes both tests and \<open>Math.floor\<close> returns it unchanged.
\<close>

lemma sanitize_value_range:
  "sanitize_value conv v = PosInf \<or> (\<exists>k\<ge>0. sanitize_value conv v = Fin (of_int k))"
proof (cases "Number_js conv v")
  case (Fin r)
  show ?thesis
  proof (cases "r < 0")
    case True
    then show ?thesis using Fin by (auto simp: sanitize_value_def intro: exI [of _ 0])
  next
    case False
    then have "0 \<le> \<lfloor>r\<rfloor>" by simp
    then show ?thesis using Fin False by (auto simp: sanitize_value_def)
  qed
next
  case PosInf
  then show ?thesis by (simp add: sanitize_value_def)
next
  case NegInf
  then show ?thesis by (auto simp: sanitize_value_def intro: exI [of _ 0])
next
  case NaN
  then show ?thesis by (auto simp: sanitize_value_def intro: exI [of _ 0])
qed

lemma sanitize_value_finite:
  "Number_js conv v = Fin r \<Longrightarrow> \<exists>k\<ge>0. sanitize_value conv v = Fin (of_int k)"
  using sanitize_value_range [of conv v]
  by (auto simp: sanitize_value_def split: if_splits)

lemma validateGameData_numeric:
  assumes "validateGameData conv now gameData = Inr s"
    and "f \<in> set numericFields" and "gameData f = Some v" and "v \<noteq> JUndefined"
  shows "s f = Some (JNum (sanitize_value conv v))"
proof -
  have ne: "f \<noteq> ''lastModified''" "f \<noteq> ''version''"
    using assms(2) metadata_not_numeric by auto
  from assms(1) have "s = (foldl (sanitize_field conv) gameData numericFields)
                     (''lastModified'' \<mapsto> now, ''version'' \<mapsto> JStr ''1.0'')"
    by (auto simp: validateGameData_def Let_def split: if_splits)
  then have "s f = foldl (sanitize_field conv) gameData numericFields f"
    using ne by simp
  also have "\<dots> = sanitize_field conv gameData f f"
    using foldl_sanitize_member [OF distinct_numericFields assms(2)] .
  also have "\<dots> = Some (JNum (sanitize_value conv v))"
    using assms(3,4) by (simp add: sanitize_field_same)
  finally show ?thesis .
qed

text \<open>A game without a date or a player name is refused before any remote attempt.\<close>

lemma validateGameData_missing:
  "\<not> truthy (getprop gameData ''date'') \<or> \<not> truthy (getprop gameData ''playerName'') \<Longrightarrow>
   \<exists>msg. validateGameData conv now gameData = Inl (DatabaseError msg None)"
  by (auto simp: validateGameData_def required_def Let_def)

lemma saveGame_missing_required:
  assumes "\<not> truthy (getprop gameData ''date'') \<or> \<not> truthy (getprop gameData ''playerName'')"
  shows "isl (result (gameService_saveGame conv now pin addDoc st gameData)) \<and>
         store (gameService_saveGame conv now pin addDoc st gameData) = st \<and>
         events (gameService_saveGame conv now pin addDoc st gameData) = []"
  using validateGameData_missing [OF assms, of conv now]
  by (auto simp: gameService_saveGame_def split: option.splits)

lemma updateGame_missing_required:
  assumes "\<not> truthy (getprop gameData ''date'') \<or> \<not> truthy (getprop gameData ''playerName'')"
  shows "isl (result (gameService_updateGame conv now pin upd st gameId gameData)) \<and>
         store (gameService_updateGame conv now pin upd st gameId gameData) = st \<and>
         events (gameService_updateGame conv now pin upd st gameId gameData) = []"
  using validateGameData_missing [OF assms, of conv now]
  by (auto simp: gameService_updateGame_def split: option.splits)

text \<open>
  A save whose three remote attempts fail with a code other than \<open>permission-denied\<close>
  throws the wrapped third error, here \<open>outage\<close>, and persists nothing.
\<close>

lemma saveGame_outage:
  assumes "validateGameData conv now gameData = Inr v"
  shows "result (gameService_saveGame conv now (Some ''1234'') (\<lambda>k. Inl offline) st gameData)
           = Inl outage \<and>
         events (gameService_saveGame conv now (Some ''1234'') (\<lambda>k. Inl offline) st gameData)
           = backoff_trace 3 \<and>
         store (gameService_saveGame conv now (Some ''1234'') (\<lambda>k. Inl offline) st gameData) = st"
proof -
  have r: "withRetry_default (\<lambda>k. (Inl offline :: js_error + string)) = (Threw offline, backoff_trace 3)"
    by (simp add: withRetry_default_cases offline_def del: One_nat_def)
  show ?thesis
    by (simp add: gameService_saveGame_def getUserPin_def assms r outage_def Let_def)
qed

lemma infinite_fouls_validated:
  "\<exists>s. validateGameData no_strings (JObj ''Date'') infinite_fouls_game = Inr s \<and>
       s ''fouls'' = Some (JNum PosInf)"
proof -
  have ok: "filter (\<lambda>field. \<not> truthy (getprop infinite_fouls_game field)) required = []"
    by (simp add: required_def infinite_fouls_game_def getprop_def)
  then obtain s where s: "validateGameData no_strings (JObj ''Date'') infinite_fouls_game = Inr s"
    by (simp add: validateGameData_def)
  have "''fouls'' \<in> set numericFields" by (simp add: numericFields_def)
  moreover have "infinite_fouls_game ''fouls'' = Some (JNum PosInf)"
    by (simp add: infinite_fouls_game_def)
  ultimately have "s ''fouls'' = Some (JNum (sanitize_value no_strings (JNum PosInf)))"
    using validateGameData_numeric [OF s] by simp
  then show ?thesis using s by (simp add: sanitize_value_def)
qed

text \<open>
  C9. The game \<open>{date: '2024-05-01', playerName: 'Ann', fouls: Infinity}\<close>, saved with a
  PIN set and a remote store that accepts the first attempt, passes \<open>validateGameData\<close> and
  is persisted with \<open>fouls = Infinity\<close>: the persisted counter is not an integer.
\<close>

theorem saveGame_persists_infinite_counter:
  "persisted_field
     (store (gameService_saveGame no_strings (JObj ''Date'') (Some ''1234'') accepting_store
               \<lparr>docs = []\<rparr> infinite_fouls_game))
     ''fouls''
   = [(''doc1'', Some (JNum PosInf))]"
proof -
  obtain s where s: "validateGameData no_strings (JObj ''Date'') infinite_fouls_game = Inr s"
    and f: "s ''fouls'' = Some (JNum PosInf)"
    using infinite_fouls_validated by blast
  have r: "withRetry_default accepting_store = (Returned ''doc1'', [Attempt 1])"
    by (simp add: withRetry_default_cases backoff_trace_simps accepting_store_def del: One_nat_def)
  show ?thesis
    by (simp add: gameService_saveGame_def getUserPin_def persisted_field_def s r f Let_def)
qed

section \<open>Properties of the timer\<close>

lemma first_half_running_reachable:
  "timer_run [Start 0] (initial_timer 30) = first_half_running"
  by (simp add: initial_timer_def first_half_running_def startTimer_def autoPause_def isTimeUp_def
        remainingSeconds_def totalHalftimeSeconds_def)

lemma second_half_paused_reachable:
  "timer_run [Start 0, Tick 1800000, StartSecondHalf, Start 1900000, Pause 2000000] (initial_timer 30)
     = second_half_paused"
  by (simp add: initial_timer_def second_half_paused_def startTimer_def pauseTimer_def tick_def
        startSecondHalf_def autoPause_def isTimeUp_def remainingSeconds_def totalHalftimeSeconds_def
        since_start_def Let_def)

text \<open>
  The interval callback clamps, and so does every step but a pause; a timer whose time is
  up ignores start and ticks.
\<close>

lemma tick_capped:
  "seconds t \<le> totalHalftimeSeconds t \<Longrightarrow> seconds (tick now t) \<le> totalHalftimeSeconds (tick now t)"
  by (auto simp: tick_def Let_def totalHalftimeSeconds_def)

lemma timer_step_capped_unless_pause:
  assumes "seconds t \<le> totalHalftimeSeconds t" and "0 \<le> halftimeMinutes t"
    and "\<forall>now. e \<noteq> Pause now"
  shows "seconds (timer_step e t) \<le> totalHalftimeSeconds (timer_step e t)"
proof (cases e)
  case (Start now)
  then show ?thesis using assms(1)
    by (simp add: startTimer_def autoPause_def totalHalftimeSeconds_def)
next
  case (Pause now)
  then show ?thesis using assms(3) by simp
next
  case (Tick now)
  then show ?thesis using tick_capped [OF assms(1), of now]
    by (simp add: autoPause_def totalHalftimeSeconds_def)
next
  case StartSecondHalf
  then show ?thesis using assms(2)
    by (simp add: startSecondHalf_def autoPause_def totalHalftimeSeconds_def)
next
  case ResetGame
  then show ?thesis using assms(2)
    by (simp add: resetTimer_def autoPause_def totalHalftimeSeconds_def)
qed

lemma time_up_blocks_start: "isTimeUp t \<Longrightarrow> startTimer now t = t"
  by (simp add: startTimer_def)

lemma time_up_blocks_tick: "isTimeUp t \<Longrightarrow> tick now t = t"
  by (simp add: tick_def)

lemma paused_pause_noop: "\<not> isRunning t \<Longrightarrow> pauseTimer now t = t"
  by (simp add: pauseTimer_def)

text \<open>
  C2. With 30-minute halves, a start at time 0 followed by a pause at 1 805 000 ms with no
  interval callback in between leaves 1805 elapsed seconds although the half lasts 1800:
  \<open>pauseTimer\<close> does not clamp. \<open>isTimeUp\<close> holds in that state while the elapsed time
  differs from the half duration.
\<close>

theorem pause_overshoots_half:
  "seconds (timer_run [Start 0, Pause 1805000] (initial_timer 30)) = 1805 \<and>
   totalHalftimeSeconds (timer_run [Start 0, Pause 1805000] (initial_timer 30)) = 1800 \<and>
   isTimeUp (timer_run [Start 0, Pause 1805000] (initial_timer 30))"
  by (simp add: initial_timer_def startTimer_def pauseTimer_def autoPause_def isTimeUp_def
        remainingSeconds_def totalHalftimeSeconds_def since_start_def Let_def)

text \<open>
  C6, as amended. While the timer is not running and the first half is current, choosing
  a different half duration resets the game to the first half, paused, with no elapsed time,
  under the new duration (30 when the value is outside 1..90). While the timer is running,
  or in the second half, the selector is disabled: the handler returns normally, raises no
  validation error, and the timer state is unchanged.
\<close>

theorem duration_change_gated:
  "(\<not> isRunning t \<and> currentHalf t \<noteq> 2 \<and> m \<noteq> halftimeMinutes t \<longrightarrow>
      select_onChange m t =
        Inr \<lparr>seconds = 0, isRunning = False, currentHalf = 1, startTimeRef = None,
             accumulatedRef = 0, halftimeMinutes = (if m < 1 \<or> m > 90 then 30 else m)\<rparr>) \<and>
   (isRunning t \<or> currentHalf t = 2 \<longrightarrow> select_onChange m t = Inr t)"
  by (cases t)
     (simp add: select_onChange_def select_disabled_def halftimeMinutes_effect_def resetTimer_def)

text \<open>
  C6, instances: from 30 to 45 minutes before kick-off, and the same change while the first
  half is running.
\<close>

theorem duration_change_gated_witness:
  "select_onChange 45 (initial_timer 30) = Inr (initial_timer 45) \<and>
   select_onChange 45 first_half_running = Inr first_half_running"
  using duration_change_gated [of "initial_timer 30" 45]
    duration_change_gated [of first_half_running 45]
  by (simp add: initial_timer_def first_half_running_def)

text \<open>
  C6 as stated fails: in the second half, paused, the change from 30 to 45 minutes does not
  happen and nothing is reset; and while the first half is running the handler returns
  normally, with no error.
\<close>

theorem duration_change_second_half_counterexample:
  "\<not> isRunning second_half_paused \<and>
   select_onChange 45 second_half_paused = Inr second_half_paused \<and>
   select_onChange 45 first_half_running = Inr first_half_running"
  by (simp add: select_onChange_def select_disabled_def second_half_paused_def
        first_half_running_def)

section \<open>Properties of the live session\<close>

subsection \<open>Logging goals\<close>

lemma formatTime_samples:
  "formatTime 10 = ''0:10''" "formatTime 185 = ''3:05''" "formatTime 2710 = ''45:10''"
  "formatTime 100 = ''1:40''" "formatTime 120 = ''2:00''" "formatTime 600 = ''10:00''"
  by (simp_all add: formatTime_def js_rem_def padStart2_def string_of_int_def digit_char_def)

lemma full_session_goals: "length (ourGoals full_session) = 20 \<and> \<not> isAddingGoal full_session"
  by (simp add: full_session_def kickoff_def initial_session_def)

lemma maximum_title: "''Maximum '' @ string_of_nat MAX_GOALS_PER_GAME @ '' goals reached'' = ''Maximum 20 goals reached''"
  by (simp add: MAX_GOALS_PER_GAME_def digit_char_def)

text \<open>
  C5, as amended. With the goal lock free and fewer than 20 goals logged for the side,
  \<open>addOurGoal\<close> (\<open>addTheirGoal\<close>) appends a goal stamped with the current game clock (the
  time as \<open>M:SS\<close> and the minute) and the wall-clock time, and takes the lock, to be released
  500 ms later. With the lock held, or 20 goals logged for the side, the call returns
  normally, signals nothing and changes no state; the button is disabled then, and at 20
  goals its tooltip reads "Maximum 20 goals reached".
\<close>

theorem addGoal_gated:
  "(\<not> isAddingGoal s \<and> length (ourGoals s) < 20 \<longrightarrow>
      addOurGoal now s =
        Inr (s\<lparr>isAddingGoal := True,
               ourGoals := ourGoals s @
                 [\<lparr>time = lit (formatTime (halftimeSeconds s)), minute = halftimeSeconds s div 60,
                   timestamp = now\<rparr>],
               unlock_due := unlock_due s @ [now + 500]\<rparr>)) \<and>
   (\<not> isAddingGoal s \<and> length (theirGoals s) < 20 \<longrightarrow>
      addTheirGoal now s =
        Inr (s\<lparr>isAddingGoal := True,
               theirGoals := theirGoals s @
                 [\<lparr>time = lit (formatTime (halftimeSeconds s)), minute = halftimeSeconds s div 60,
                   timestamp = now\<rparr>],
               unlock_due := unlock_due s @ [now + 500]\<rparr>)) \<and>
   (isAddingGoal s \<or> length (ourGoals s) \<ge> 20 \<longrightarrow>
      addOurGoal now s = Inr s \<and> ourGoal_disabled s) \<and>
   (isAddingGoal s \<or> length (theirGoals s) \<ge> 20 \<longrightarrow>
      addTheirGoal now s = Inr s \<and> theirGoal_disabled s) \<and>
   (length (ourGoals s) \<ge> 20 \<longrightarrow> ourGoal_title s = ''Maximum 20 goals reached'') \<and>
   (length (theirGoals s) \<ge> 20 \<longrightarrow> theirGoal_title s = ''Maximum 20 goals reached'')"
proof -
  have cap: "MAX_GOALS_PER_GAME = 20" by (simp add: MAX_GOALS_PER_GAME_def)
  show ?thesis
    unfolding ourGoal_title_def theirGoal_title_def maximum_title
    by (auto simp: addOurGoal_def addTheirGoal_def new_goal_def cap ourGoal_disabled_def
          theirGoal_disabled_def)
qed

text \<open>
  C5, instances: a goal at the clock position 185 s; a call while the lock is held; a call
  with 20 goals logged.
\<close>

theorem addGoal_gated_witness:
  "addOurGoal 7000 (handleHalftimeUpdate 185 kickoff) =
     Inr (handleHalftimeUpdate 185 kickoff
            \<lparr>isAddingGoal := True,
             ourGoals := [\<lparr>time = lit ''3:05'', minute = 3, timestamp = 7000\<rparr>],
             unlock_due := [7500]\<rparr>) \<and>
   addTheirGoal 20000 locked_session = Inr locked_session \<and>
   addOurGoal 20000 full_session = Inr full_session \<and>
   ourGoal_title full_session = ''Maximum 20 goals reached''"
  using addGoal_gated [of "handleHalftimeUpdate 185 kickoff" 7000]
    addGoal_gated [of locked_session 20000] addGoal_gated [of full_session 20000]
    full_session_goals
  by (simp add: handleHalftimeUpdate_def kickoff_def initial_session_def formatTime_samples
        locked_session_def click_def run_timeouts_def addTheirGoal_def MAX_GOALS_PER_GAME_def Let_def)

text \<open>
  C5 as stated fails: with 20 goals logged and the lock free the call returns normally
  (no \<open>CapacityExceeded\<close> is signalled), and with the lock held and no goal logged for our
  side the call appends nothing.
\<close>

theorem addGoal_no_signal_counterexample:
  "length (ourGoals full_session) = 20 \<and> \<not> isAddingGoal full_session \<and>
   addOurGoal 20000 full_session = Inr full_session \<and>
   isAddingGoal locked_session \<and> ourGoals locked_session = [] \<and>
   addOurGoal 1200 locked_session = Inr locked_session"
  by (simp add: full_session_def locked_session_def kickoff_def initial_session_def click_def
        run_timeouts_def addOurGoal_def addTheirGoal_def MAX_GOALS_PER_GAME_def Let_def)

subsection \<open>The goal lock\<close>

lemma run_timeouts_not_due:
  "list_all (\<lambda>d. t < d) (unlock_due s) \<Longrightarrow> run_timeouts t s = s"
  by (auto simp: run_timeouts_def list_all_iff list_ex_iff)

lemma locked_handler_noop: "isAddingGoal s \<Longrightarrow> goal_handler op t s = Inr s"
  by (cases op)
     (simp_all add: addOurGoal_def addTheirGoal_def removeLastOurGoal_def removeLastTheirGoal_def)

lemma locked_click_noop:
  "isAddingGoal s \<Longrightarrow> list_all (\<lambda>d. t < d) (unlock_due s) \<Longrightarrow> click op t s = s"
  by (simp add: click_def run_timeouts_not_due locked_handler_noop)

lemma locked_clicks_noop:
  "isAddingGoal s \<Longrightarrow> list_all (\<lambda>(op, t). list_all (\<lambda>d. t < d) (unlock_due s)) evs \<Longrightarrow>
   clicks evs s = s"
  by (induction evs) (auto simp: locked_click_noop)

text \<open>
  From the initial session on, the lock is held exactly while its release is pending: the
  state in which a goal can be added has no pending release.
\<close>

lemma lock_inv_initial: "lock_inv (initial_session today)"
  by (simp add: lock_inv_def initial_session_def)

lemma lock_inv_run_timeouts: "lock_inv s \<Longrightarrow> lock_inv (run_timeouts t s)"
  by (cases "unlock_due s") (auto simp: lock_inv_def run_timeouts_def split: if_splits)

lemma lock_inv_click: "lock_inv s \<Longrightarrow> lock_inv (click op t s)"
proof -
  assume "lock_inv s"
  then have inv: "lock_inv (run_timeouts t s)" by (rule lock_inv_run_timeouts)
  show ?thesis
    using inv
    by (cases op)
       (auto simp: click_def lock_inv_def addOurGoal_def addTheirGoal_def removeLastOurGoal_def
          removeLastTheirGoal_def Let_def split: if_splits)
qed

lemma lock_inv_clicks: "lock_inv s \<Longrightarrow> lock_inv (clicks evs s)"
  by (induction evs arbitrary: s) (auto simp: lock_inv_click)

text \<open>
  C10. Both add handlers take the one lock \<open>isAddingGoal\<close>. After a successful
  \<open>addOurGoal\<close> or \<open>addTheirGoal\<close> at time \<open>t0\<close> (lock free, fewer than 20 goals for the
  side), every sequence of clicks on the four goal buttons at times before \<open>t0 + 500\<close>
  leaves the whole session as it was right after the add: no goal of either side is added
  and none is removed.
\<close>

theorem goal_lock_window:
  assumes "\<not> isAddingGoal s" and "unlock_due s = []"
    and "list_all (\<lambda>(op, t). t < t0 + 500) evs"
  shows "(length (ourGoals s) < 20 \<longrightarrow>
            ourGoals (click AddOurGoal t0 s) = ourGoals s @ [new_goal t0 s] \<and>
            isAddingGoal (click AddOurGoal t0 s) \<and>
            clicks evs (click AddOurGoal t0 s) = click AddOurGoal t0 s) \<and>
         (length (theirGoals s) < 20 \<longrightarrow>
            theirGoals (click AddTheirGoal t0 s) = theirGoals s @ [new_goal t0 s] \<and>
            isAddingGoal (click AddTheirGoal t0 s) \<and>
            clicks evs (click AddTheirGoal t0 s) = click AddTheirGoal t0 s)"
proof -
  have rt: "run_timeouts t0 s = s"
    using assms(2) by (simp add: run_timeouts_def)
  have window: "list_all (\<lambda>(op, t). list_all (\<lambda>d. t < d) [t0 + 500]) evs"
    using assms(3) by (simp add: list_all_iff case_prod_beta)
  have our: "length (ourGoals s) < 20 \<Longrightarrow>
      click AddOurGoal t0 s =
        s\<lparr>isAddingGoal := True, ourGoals := ourGoals s @ [new_goal t0 s], unlock_due := [t0 + 500]\<rparr>"
    using assms(1,2) by (simp add: click_def rt addOurGoal_def MAX_GOALS_PER_GAME_def)
  have their: "length (theirGoals s) < 20 \<Longrightarrow>
      click AddTheirGoal t0 s =
        s\<lparr>isAddingGoal := True, theirGoals := theirGoals s @ [new_goal t0 s], unlock_due := [t0 + 500]\<rparr>"
    using assms(1,2) by (simp add: click_def rt addTheirGoal_def MAX_GOALS_PER_GAME_def)
  show ?thesis
  proof (intro conjI impI)
    assume l: "length (ourGoals s) < 20"
    show "ourGoals (click AddOurGoal t0 s) = ourGoals s @ [new_goal t0 s]"
      by (simp add: our [OF l])
    show "isAddingGoal (click AddOurGoal t0 s)"
      by (simp add: our [OF l])
    show "clicks evs (click AddOurGoal t0 s) = click AddOurGoal t0 s"
      using window by (intro locked_clicks_noop) (simp_all add: our [OF l])
  next
    assume l: "length (theirGoals s) < 20"
    show "theirGoals (click AddTheirGoal t0 s) = theirGoals s @ [new_goal t0 s]"
      by (simp add: their [OF l])
    show "isAddingGoal (click AddTheirGoal t0 s)"
      by (simp add: their [OF l])
    show "clicks evs (click AddTheirGoal t0 s) = click AddTheirGoal t0 s"
      using window by (intro locked_clicks_noop) (simp_all add: their [OF l])
  qed
qed

text \<open>
  C10, instance: a goal at time 1000, then the four buttons at 1100, 1200, 1300 and 1499.
\<close>

theorem goal_lock_window_witness:
  "clicks [(AddOurGoal, 1100), (AddTheirGoal, 1200), (RemoveLastOurGoal, 1300), (RemoveLastTheirGoal, 1499)]
      (click AddOurGoal 1000 kickoff) = click AddOurGoal 1000 kickoff \<and>
   length (ourGoals (click AddOurGoal 1000 kickoff)) = 1 \<and>
   clicks [(AddOurGoal, 1100), (AddTheirGoal, 1200), (RemoveLastOurGoal, 1300), (RemoveLastTheirGoal, 1499)]
      (click AddTheirGoal 1000 kickoff) = click AddTheirGoal 1000 kickoff \<and>
   length (theirGoals (click AddTheirGoal 1000 kickoff)) = 1"
  using goal_lock_window [of kickoff 1000
      "[(AddOurGoal, 1100), (AddTheirGoal, 1200), (RemoveLastOurGoal, 1300), (RemoveLastTheirGoal, 1499)]"]
  by (simp add: kickoff_def initial_session_def)

text \<open>Once the 500 ms have passed the lock is released: the goal can be undone.\<close>

lemma after_window_unlocks:
  "click RemoveLastOurGoal 1500 (click AddOurGoal 1000 kickoff) = kickoff"
  by (simp add: kickoff_def initial_session_def click_def run_timeouts_def addOurGoal_def
        removeLastOurGoal_def MAX_GOALS_PER_GAME_def Let_def)

subsection \<open>Stat counters\<close>

text \<open>The counters of GameStats never leave the non-negative numbers.\<close>

lemma decrement_floor: "decrement 0 = 0 \<and> (0 \<le> v \<longrightarrow> 0 \<le> decrement v \<and> 0 \<le> increment v)"
  by (simp add: decrement_def increment_def)

lemma stat_click_nonneg:
  "\<forall>st. 0 \<le> stats s st \<Longrightarrow> \<forall>st. 0 \<le> stats (stat_click c s) st"
  by (cases c) (auto simp: decrement_def increment_def)

lemma stat_clicks_nonneg:
  "\<forall>st. 0 \<le> stats s st \<Longrightarrow> \<forall>st. 0 \<le> stats (stat_clicks cs s) st"
proof (induction cs arbitrary: s)
  case Nil
  then show ?case by simp
next
  case (Cons c cs)
  from Cons.prems have "\<forall>st. 0 \<le> stats (stat_click c s) st" by (rule stat_click_nonneg)
  then show ?case using Cons.IH by simp
qed

text \<open>
  C8. In the first App component the "-" button calls \<open>handleStatChange(stat, -1)\<close>, which
  adds the delta without a floor: from the initial value 0 the counter \<open>goalsLeft\<close> becomes
  -1.
\<close>

theorem handleStatChange_goes_negative:
  "handleStatChange app_goalsLeft (- 1) app_initial_stats app_goalsLeft = - 1"
  by (simp add: handleStatChange_def app_initial_stats_def)

subsection \<open>The counters of the older component after a save\<close>

text \<open>
  The older GameStats component resets twelve counters at the end of a save; a counter that
  is on screen but not among them, such as \<open>headersMade\<close>, carries over into the next game.
\<close>

lemma older_reset_keeps_headers:
  "older_reset two_headers headersMade = 2 \<and> older_reset two_headers goalsLeft' = 0"
  by (simp add: older_reset_def two_headers_def)

subsection \<open>Saving a game when the remote save fails\<close>

lemma sanitizeInput_samples:
  "sanitizeInput (lit ''2024-05-01'') = lit ''2024-05-01''"
  "sanitizeInput (lit ''Ann'') = lit ''Ann''"
  "sanitizeInput (lit ''Rovers'') = lit ''Rovers''"
  "sanitizeInput (lit ''windy'') = lit ''windy''"
  "sanitizeInput [] = []"
  by (simp_all add: sanitizeInput_def lit_def js_space_def control_char_def)

lemma newGame_bookkeeping [simp]:
  "newGame (s\<lparr>isSaving := a\<rparr>) = newGame s"
  "newGame (s\<lparr>syncStatus := b\<rparr>) = newGame s"
  "newGame (s\<lparr>alerts := c\<rparr>) = newGame s"
  by (simp_all add: newGame_def)

lemma string_of_int_sample: "string_of_int 1714560000000 = ''1714560000000''"
  by (simp add: string_of_int_def digit_char_def)

lemma busy_session_fields:
  "validateStats (stats busy_session) = []"
  "savedGames busy_session = []" "alerts busy_session = []" "localStorage busy_session = None"
  "length (ourGoals busy_session) = 1" "theirGoals busy_session = []"
  "playerName busy_session = lit ''Ann''"
  by (simp_all add: busy_session_def validateStats_def click_def run_timeouts_def kickoff_def
        initial_session_def handleHalftimeUpdate_def addOurGoal_def MAX_GOALS_PER_GAME_def Let_def)

text \<open>
  The \<open>catch\<close> block of \<open>saveGame\<close>, for a committed save (no warnings, or the warnings
  confirmed) and any error thrown by the remote save: the game is put at the head of the
  saved games with the id \<open>local_<Date.now()>\<close>; the list is written to \<open>localStorage\<close> when
  that write goes through, and nowhere when it does not; one alert reports the failure; all
  counters, both goal lists and the notes are reset, and \<open>isSaving\<close> is false again.
\<close>

lemma saveGame_catch_branch:
  assumes "validateStats (stats s) = [] \<or> confirmed"
  shows "savedGames (saveGame confirmed now isoString (Inl error) ok s)
           = (newGame s)\<lparr>g_id := Some (''local_'' @ string_of_int now),
                          g_createdAt := Some isoString\<rparr> # savedGames s \<and>
         localStorage (saveGame confirmed now isoString (Inl error) ok s)
           = (if ok then Some (savedGames (saveGame confirmed now isoString (Inl error) ok s))
              else localStorage s) \<and>
         alerts (saveGame confirmed now isoString (Inl error) ok s)
           = alerts s @ [save_failed_message error] \<and>
         syncStatus (saveGame confirmed now isoString (Inl error) ok s) = ''error'' \<and>
         stats (saveGame confirmed now isoString (Inl error) ok s) = (\<lambda>st. 0) \<and>
         ourGoals (saveGame confirmed now isoString (Inl error) ok s) = [] \<and>
         theirGoals (saveGame confirmed now isoString (Inl error) ok s) = [] \<and>
         gameNotes (saveGame confirmed now isoString (Inl error) ok s) = [] \<and>
         isSaving (saveGame confirmed now isoString (Inl error) ok s) = False"
  using assms
  by (auto simp: saveGame_def saveToLocalStorage_def reset_stats_def Let_def)

lemma after_outage_fields:
  "savedGames after_outage
     = [(newGame busy_session)\<lparr>g_id := Some ''local_1714560000000'',
                                g_createdAt := Some ''2024-05-01T10:40:00.000Z''\<rparr>]"
  "localStorage after_outage = Some (savedGames after_outage)"
  "stats after_outage = (\<lambda>st. 0)" "ourGoals after_outage = []" "theirGoals after_outage = []"
  "gameNotes after_outage = []" "isSaving after_outage = False"
  "alerts after_outage = [save_failed_message outage]"
  using saveGame_catch_branch [of busy_session False 1714560000000 "''2024-05-01T10:40:00.000Z''" outage True]
  by (simp_all add: after_outage_def busy_session_fields string_of_int_sample)

lemma after_reconnect_fields:
  "savedGames after_reconnect = []"
  "localStorage after_reconnect = localStorage after_outage"
  "stats after_reconnect = (\<lambda>st. 0)"
  "syncStatus after_reconnect = ''synced''"
  by (simp_all add: after_reconnect_def loadGamesFromFirebase_def Let_def after_outage_fields)

text \<open>
  C3. A game with one goal, played by Ann, is saved during an outage. The \<open>catch\<close> block
  keeps it under the id \<open>local_1714560000000\<close> in the saved games and in \<open>localStorage\<close>,
  and the alert says that it "will sync when connection is restored". When the connection
  returns, the \<open>online\<close> handler loads the games of the remote store, which never received
  this one, and the loaded list replaces the saved games: the game is off the screen, with
  the status \<open>synced\<close>. The next successful save writes its own list to \<open>localStorage\<close>:
  the game is now in neither place. When the \<open>localStorage\<close> write of the failed save does
  not go through, the game was never stored there. And the older component's reset leaves
  its counter \<open>headersMade\<close> at 2 for the next game.
\<close>

theorem local_record_lost_after_reconnect:
  "map g_id (savedGames after_outage) = [Some ''local_1714560000000''] \<and>
   map g_playerName (savedGames after_outage) = [lit ''Ann''] \<and>
   map g_ourGoals (savedGames after_outage) = [1] \<and>
   map_option (map g_id) (localStorage after_outage) = Some [Some ''local_1714560000000''] \<and>
   alerts after_outage =
     [''Save failed: Failed to save game: Failed to get document because the client is offline.'' @
      ''. Your data has been saved locally and will sync when connection is restored.''] \<and>
   syncStatus after_reconnect = ''synced'' \<and>
   savedGames after_reconnect = [] \<and>
   map_option (map g_id) (localStorage after_reconnect) = Some [Some ''local_1714560000000''] \<and>
   map g_id (savedGames after_next_save) = [Some ''doc2''] \<and>
   map_option (map g_id) (localStorage after_next_save) = Some [Some ''doc2''] \<and>
   localStorage
     (saveGame False 1714560000000 ''2024-05-01T10:40:00.000Z'' (Inl outage) False busy_session)
     = None \<and>
   older_reset two_headers headersMade = 2"
proof -
  have g: "g_playerName (newGame busy_session) = lit ''Ann'' \<and> g_ourGoals (newGame busy_session) = 1"
    by (simp add: newGame_def Let_def busy_session_fields sanitizeInput_samples)
  have m: "save_failed_message outage =
     ''Save failed: Failed to save game: Failed to get document because the client is offline.'' @
      ''. Your data has been saved locally and will sync when connection is restored.''"
    by (simp add: save_failed_message_def outage_def wrap_error_def DatabaseError_def offline_def)
  have q: "localStorage
     (saveGame False 1714560000000 ''2024-05-01T10:40:00.000Z'' (Inl outage) False busy_session)
     = None"
    using saveGame_catch_branch [of busy_session False 1714560000000 "''2024-05-01T10:40:00.000Z''" outage False]
    by (simp add: busy_session_fields)
  have n: "map g_id (savedGames after_next_save) = [Some ''doc2''] \<and>
           map_option (map g_id) (localStorage after_next_save) = Some [Some ''doc2'']"
    by (simp add: after_next_save_def saveGame_def saveToLocalStorage_def reset_stats_def Let_def
          after_reconnect_fields validateStats_def)
  have o: "older_reset two_headers headersMade = 2"
    by (simp add: older_reset_def two_headers_def)
  show ?thesis
    using g m q n o by (simp add: after_outage_fields after_reconnect_fields)
qed

subsection \<open>The goal timeline\<close>













section \<open>Properties of saved games under editing\<close>

text \<open>
  A game built by \<open>saveGame\<close> is consistent, and so is every game the current edit form
  saves, whatever was typed into the form.
\<close>

lemma newGame_consistent: "record_consistent (newGame s)"
  by (simp add: record_consistent_def newGame_def gameResult_of_def Let_def)

lemma saveEdit_consistent: "saveEdit confirmed secs g form = Some g' \<Longrightarrow> record_consistent g'"
  by (auto simp: saveEdit_def record_consistent_def gameResult_of_def split: if_splits)

lemma saved_one_nil_consistent: "record_consistent saved_one_nil"
  using newGame_consistent [of busy_session]
  by (auto simp: saved_one_nil_def record_consistent_def split: option.splits)

lemma saved_one_nil_facts:
  "g_ourGoals saved_one_nil = 1" "g_theirGoals saved_one_nil = 0"
  "g_goalHistory saved_one_nil
     = Some \<lparr>our = [\<lparr>time = lit ''3:05'', minute = 3, timestamp = 1000\<rparr>], their = []\<rparr>"
  by (simp_all add: saved_one_nil_def busy_session_def newGame_def Let_def click_def run_timeouts_def
        kickoff_def initial_session_def handleHalftimeUpdate_def addOurGoal_def new_goal_def
        MAX_GOALS_PER_GAME_def formatTime_samples)

text \<open>
  C1. In the earlier GameHistory component, editing the one-nil game and typing 3 into
  "Our Goals" saves a game with \<open>ourGoals = 3\<close> whose goal history still holds the one goal:
  the score no longer equals the length of the goal list.
\<close>

theorem legacy_saveEdit_breaks_goal_count:
  "map_option g_ourGoals
     (legacy_saveEdit True saved_one_nil
        (legacy_handleInputChange OurGoals 3 (legacy_startEditing saved_one_nil))) = Some 3 \<and>
   map_option g_goalHistory
     (legacy_saveEdit True saved_one_nil
        (legacy_handleInputChange OurGoals 3 (legacy_startEditing saved_one_nil)))
     = Some (Some \<lparr>our = [\<lparr>time = lit ''3:05'', minute = 3, timestamp = 1000\<rparr>], their = []\<rparr>) \<and>
   map_option record_consistent
     (legacy_saveEdit True saved_one_nil
        (legacy_handleInputChange OurGoals 3 (legacy_startEditing saved_one_nil))) = Some False"
  by (simp add: legacy_saveEdit_def legacy_startEditing_def saved_one_nil_facts gameResult_of_def
        record_consistent_def)

end
